theory Spec2Isabelle
  imports Main
begin

section \<open>Abstract attribute handling: a model of pytype/attribute.py\<close>

text \<open>
  The development embeds \<^verbatim>\<open>AbstractAttributeHandler\<close> of \<^verbatim>\<open>pytype/attribute.py\<close>.
  Every method of the handler becomes a HOL function of the same name (a leading
  underscore is dropped; \<^verbatim>\<open>_get_attribute\<close> is \<open>get_attribute'\<close>). The handler works on
  objects of other modules (\<^verbatim>\<open>abstract\<close>, \<^verbatim>\<open>cfg\<close>, the virtual machine), which are not
  part of the file: their attributes and methods are the fields of the record \<open>env\<close>,
  so every theorem holds for whatever those modules compute. Mutable data the handler
  reads and writes itself (member mappings, the class reference, the Variables, the
  error log) is the record \<open>state\<close>, passed in and returned.
\<close>

subsection \<open>Nodes, values, Variables and Bindings\<close>

type_synonym node = nat
type_synonym ref = nat
type_synonym var = nat
type_synonym name = string

text \<open>
  A \<open>ref\<close> is the identity of an abstract value, a \<open>var\<close> the identity of a
  \<^verbatim>\<open>cfg.Variable\<close>. Python's \<^verbatim>\<open>is\<close> and the default \<^verbatim>\<open>==\<close> of values compare them.
\<close>

text \<open>
  Modelled from the spec: the class \<^verbatim>\<open>cfg.Binding\<close> is not part of the file. A Binding is
  a (value, origin-node-set) pair, immutable once created (section 3); the source sets
  that the handler passes to \<^verbatim>\<open>AddBinding\<close> are not part of the spec's Binding.
\<close>

record binding =
  data :: ref
  origins :: "node list"

text \<open>
  The Python classes that \<^verbatim>\<open>attribute.py\<close> tests values against with \<^verbatim>\<open>isinstance\<close>. Which
  value is an instance of which class is decided by the value model, so \<open>isinstance\<close>
  is a field of \<open>env\<close>, and the dispatch chains below keep the order of the source.
\<close>

datatype pyclass =
    abstract_Function
  | abstract_PyTDFunction
  | abstract_SignedFunction
  | abstract_ParameterizedClass
  | class_mixin_Class
  | abstract_InterpreterClass
  | abstract_PyTDClass
  | overlay_Overlay
  | abstract_Module
  | abstract_SimpleValue
  | abstract_Instance
  | abstract_Union
  | special_builtins_SuperInstance
  | special_builtins_Super
  | special_builtins_PropertyInstance
  | abstract_BoundFunction
  | abstract_TypeParameterInstance
  | abstract_Empty
  | abstract_StaticMethod
  | abstract_ClassMethod
  | abstract_Property
  | abstract_Unsolvable
  | abstract_Unknown
  | mixin_LazyMembers

text \<open>
  What a call of the handler can do: return, raise, or recurse for ever. The
  recursion of \<^verbatim>\<open>get_attribute\<close> and \<^verbatim>\<open>set_attribute\<close> follows references between values
  and is bounded by fuel; \<open>Diverged\<close> is the result of running out of it.
\<close>

datatype error = NotImplementedError string | AssertionError

datatype 'a outcome = Done 'a | Raised error | Diverged

definition and_then :: "'a outcome \<Rightarrow> ('a \<Rightarrow> 'b outcome) \<Rightarrow> 'b outcome" where
  "and_then m f = (case m of Done x \<Rightarrow> f x | Raised e \<Rightarrow> Raised e | Diverged \<Rightarrow> Diverged)"

text \<open>
  The mutable state. \<open>members s obj\<close> is \<^verbatim>\<open>obj.members\<close>, \<open>cls_of s obj\<close> is \<^verbatim>\<open>obj.cls\<close>,
  \<open>variables s v\<close> is \<^verbatim>\<open>v.bindings\<close>, \<open>next_var\<close> is the next Variable that
  \<^verbatim>\<open>program.NewVariable\<close> hands out, \<open>errorlog\<close> the not-writable reports of
  \<^verbatim>\<open>vm.errorlog\<close>. \<open>ext\<close> is the state of the virtual machine that the handler never
  reads: function signatures, the official names of values, the current frame.
\<close>

record 'x state =
  members :: "ref \<Rightarrow> name \<Rightarrow> var option"
  cls_of :: "ref \<Rightarrow> ref"
  variables :: "var \<Rightarrow> binding list"
  next_var :: var
  errorlog :: "(ref \<times> name) list"
  ext :: 'x

text \<open>
  The collaborators. First the attributes of values that the handler only reads
  (\<open>mro E c\<close> is \<^verbatim>\<open>c.mro\<close>; \<open>name_of\<close>, \<open>method_of\<close> and \<open>instance_of\<close> are
  \<^verbatim>\<open>.name\<close>, \<^verbatim>\<open>.method\<close> and \<^verbatim>\<open>.instance\<close>; \<open>class_name E v\<close> is
  \<^verbatim>\<open>v.__class__.__name__\<close>), then the constants of \<^verbatim>\<open>vm.convert\<close> and of the virtual
  machine, the graph, and the methods the handler calls. A method that can create
  Variables, load members or run analysed code takes the state and returns it.
  \<open>contains E s c n\<close> is \<^verbatim>\<open>n in c\<close>; \<open>property_call\<close> is \<^verbatim>\<open>Property.call(node, None, None)\<close>;
  \<open>f_globals\<close> is \<^verbatim>\<open>vm.frame.f_globals\<close>, \<open>None\<close> when there is no frame.
  \<open>update_official_name\<close> and \<open>set_function_defaults\<close> act on \<open>ext\<close> only.
\<close>

record 'x env =
  isinstance :: "ref \<Rightarrow> pyclass \<Rightarrow> bool"
  class_name :: "ref \<Rightarrow> string"
  full_name :: "ref \<Rightarrow> string"
  name_of :: "ref \<Rightarrow> string"
  mro :: "ref \<Rightarrow> ref list"
  slots :: "ref \<Rightarrow> name list option"
  maybe_missing_members :: "ref \<Rightarrow> bool"
  base_cls :: "ref \<Rightarrow> ref"
  method_of :: "ref \<Rightarrow> ref"
  underlying :: "ref \<Rightarrow> ref"
  instance_of :: "ref \<Rightarrow> ref"
  param :: "ref \<Rightarrow> ref"
  options :: "ref \<Rightarrow> ref list"
  super_cls :: "ref \<Rightarrow> ref"
  super_obj :: "ref \<Rightarrow> ref option"
  formal :: "ref \<Rightarrow> bool"
  constraints :: "ref \<Rightarrow> ref list"
  bound :: "ref \<Rightarrow> ref option"
  formal_type_parameters :: "ref \<Rightarrow> (name \<times> ref) list"
  object_type :: ref
  type_type :: ref
  super_type :: ref
  module_type :: ref
  none :: ref
  empty :: ref
  unsolvable :: ref
  root_node :: node
  options_module_name :: string
  f_globals :: "'x \<Rightarrow> ref option"
  reachable :: "node \<Rightarrow> node \<Rightarrow> bool"
  join_cfg_nodes :: "node list \<Rightarrow> node"
  new_unsolvable :: "'x state \<Rightarrow> node \<Rightarrow> var \<times> 'x state"
  join_variables :: "'x state \<Rightarrow> node \<Rightarrow> var list \<Rightarrow> var \<times> 'x state"
  constant_to_var :: "'x state \<Rightarrow> name \<Rightarrow> node \<Rightarrow> var \<times> 'x state"
  merge_classes :: "'x state \<Rightarrow> ref list \<Rightarrow> ref"
  call_function :: "'x state \<Rightarrow> node \<Rightarrow> var \<Rightarrow> var list \<Rightarrow> (node \<times> var) \<times> 'x state"
  get_special_attribute ::
    "'x state \<Rightarrow> ref \<Rightarrow> node \<Rightarrow> name \<Rightarrow> binding option \<Rightarrow> var option \<times> 'x state"
  contains :: "'x state \<Rightarrow> ref \<Rightarrow> name \<Rightarrow> bool"
  equivalent_to :: "binding \<Rightarrow> ref \<Rightarrow> bool"
  property_get :: "'x state \<Rightarrow> ref \<Rightarrow> var \<Rightarrow> bool \<Rightarrow> ref \<times> 'x state"
  property_call :: "'x state \<Rightarrow> ref \<Rightarrow> node \<Rightarrow> (node \<times> var) \<times> 'x state"
  load_lazy_attribute ::
    "'x state \<Rightarrow> ref \<Rightarrow> name \<Rightarrow> (string \<times> var) list option \<Rightarrow> 'x state"
  convert_as_instance_attribute ::
    "'x state \<Rightarrow> ref \<Rightarrow> name \<Rightarrow> ref \<Rightarrow> var option \<times> 'x state"
  get_instance_type_parameter :: "'x state \<Rightarrow> ref \<Rightarrow> name \<Rightarrow> var \<times> 'x state"
  instantiate :: "'x state \<Rightarrow> ref \<Rightarrow> node \<Rightarrow> var \<times> 'x state"
  get_module :: "'x state \<Rightarrow> ref \<Rightarrow> name \<Rightarrow> ref"
  get_submodule :: "'x state \<Rightarrow> ref \<Rightarrow> node \<Rightarrow> name \<Rightarrow> var option \<times> 'x state"
  set_class :: "'x state \<Rightarrow> ref \<Rightarrow> node \<Rightarrow> var \<Rightarrow> node \<times> 'x state"
  update_official_name :: "'x state \<Rightarrow> ref \<Rightarrow> name \<Rightarrow> 'x"
  set_function_defaults :: "'x state \<Rightarrow> ref \<Rightarrow> node \<Rightarrow> var \<Rightarrow> 'x"
  get_annotations_dict :: "'x state \<Rightarrow> ref \<Rightarrow> ref option"
  get_type :: "'x state \<Rightarrow> ref \<Rightarrow> node \<Rightarrow> name \<Rightarrow> ref option"
  get_type_parameters :: "'x state \<Rightarrow> ref \<Rightarrow> ref list"
  get_type_parameter_substitutions :: "'x state \<Rightarrow> ref \<Rightarrow> ref list \<Rightarrow> (name \<times> var) list"
  sub_one_annotation ::
    "'x state \<Rightarrow> node \<Rightarrow> ref \<Rightarrow> (name \<times> var) list list \<Rightarrow> ref \<times> 'x state"
  init_annotation :: "'x state \<Rightarrow> node \<Rightarrow> name \<Rightarrow> ref \<Rightarrow> var \<times> 'x state"

text \<open>Modelled from the spec: the constant \<^verbatim>\<open>abstract.AMBIGUOUS_OR_EMPTY\<close> is not part of
  the file. The ambiguous and placeholder values are Unknown, Unsolvable and Empty
  (sections 3 and 4.5). \<open>isinstance_any\<close> is \<^verbatim>\<open>isinstance\<close> with a tuple of classes.\<close>

definition AMBIGUOUS_OR_EMPTY :: "pyclass list" where
  "AMBIGUOUS_OR_EMPTY = [abstract_Unknown, abstract_Unsolvable, abstract_Empty]"

definition isinstance_any :: "'x env \<Rightarrow> ref \<Rightarrow> pyclass list \<Rightarrow> bool" where
  "isinstance_any E v cs = (\<exists>c \<in> set cs. isinstance E v c)"

subsection \<open>The operations of Variables\<close>

text \<open>
  Modelled from the spec: \<^verbatim>\<open>Binding.IsVisible\<close> and \<^verbatim>\<open>Variable.Bindings\<close> (\<^verbatim>\<open>cfg\<close>) are not
  part of the file. A Binding is visible at a node if that node is reachable from, or
  equal to, one of the Binding's origin nodes, per the graph's own reachability rule
  (section 3), which is the field \<open>reachable\<close>; \<^verbatim>\<open>Bindings(node, strict)\<close> keeps the
  Bindings visible at the node (section 4.6), and the spec gives \<^verbatim>\<open>strict\<close> no meaning
  of its own.
\<close>

definition IsVisible :: "'x env \<Rightarrow> binding \<Rightarrow> node \<Rightarrow> bool" where
  "IsVisible E b node = (\<exists>origin \<in> set (origins b). origin = node \<or> reachable E origin node)"

definition Bindings :: "'x env \<Rightarrow> 'x state \<Rightarrow> var \<Rightarrow> node \<Rightarrow> bool \<Rightarrow> binding list" where
  "Bindings E s v node strict = filter (\<lambda>b. IsVisible E b node) (variables s v)"

text \<open>
  Modelled from the spec: the methods of \<^verbatim>\<open>cfg.Program\<close> and \<^verbatim>\<open>cfg.Variable\<close>
  (\<^verbatim>\<open>NewVariable\<close>, \<^verbatim>\<open>AddBinding\<close>, \<^verbatim>\<open>PasteVariable\<close>, \<^verbatim>\<open>AssignToNewVariable\<close>) are not part
  of the file. A Variable is created fresh by the engine when it needs a new result,
  and mutated in place, Bindings appended and never removed, when a write is merged
  into existing storage (section 3); the existing Variable gets the new Bindings
  pasted in (section 4.7). A pasted Binding originates at the node of the paste;
  pasted without a node it keeps its origins.
\<close>

definition NewVariable :: "'x state \<Rightarrow> var \<times> 'x state" where
  "NewVariable s =
     (next_var s, s\<lparr>variables := (variables s)(next_var s := []), next_var := Suc (next_var s)\<rparr>)"

definition AddBinding :: "'x state \<Rightarrow> var \<Rightarrow> ref \<Rightarrow> node \<Rightarrow> 'x state" where
  "AddBinding s v d node =
     s\<lparr>variables := (variables s)(v := variables s v @ [\<lparr>data = d, origins = [node]\<rparr>])\<rparr>"

definition pasted :: "node option \<Rightarrow> binding \<Rightarrow> binding" where
  "pasted at b = (case at of None \<Rightarrow> b | Some node \<Rightarrow> \<lparr>data = data b, origins = [node]\<rparr>)"

definition PasteVariable :: "'x state \<Rightarrow> var \<Rightarrow> var \<Rightarrow> node option \<Rightarrow> 'x state" where
  "PasteVariable s v other at =
     s\<lparr>variables := (variables s)(v := variables s v @ map (pasted at) (variables s other))\<rparr>"

definition AssignToNewVariable :: "'x state \<Rightarrow> var \<Rightarrow> node option \<Rightarrow> var \<times> 'x state" where
  "AssignToNewVariable s v at = (case NewVariable s of (r, s1) \<Rightarrow> (r, PasteVariable s1 r v at))"

definition Binding_AssignToNewVariable ::
  "'x state \<Rightarrow> binding \<Rightarrow> node option \<Rightarrow> var \<times> 'x state" where
  "Binding_AssignToNewVariable s b at =
     (case NewVariable s of (r, s1) \<Rightarrow>
        (r, s1\<lparr>variables := (variables s1)(r := [pasted at b])\<rparr>))"

text \<open>Modelled from the spec: \<^verbatim>\<open>to_variable\<close> and \<^verbatim>\<open>to_binding\<close> of the values
  (\<^verbatim>\<open>abstract\<close>) are not part of the file. They create a Variable that holds the value
  in one Binding, with the node as its origin (Variable creation, Binding creation
  with origin sets, section 6).\<close>

definition to_variable :: "'x state \<Rightarrow> ref \<Rightarrow> node \<Rightarrow> var \<times> 'x state" where
  "to_variable s v node = (case NewVariable s of (r, s1) \<Rightarrow> (r, AddBinding s1 r v node))"

definition to_binding :: "'x state \<Rightarrow> ref \<Rightarrow> node \<Rightarrow> binding \<times> 'x state" where
  "to_binding s v node =
     (case to_variable s v node of (r, s1) \<Rightarrow> (\<lparr>data = v, origins = [node]\<rparr>, s1))"

text \<open>Modelled from the spec: \<^verbatim>\<open>vm.errorlog.not_writable\<close> is not part of the file. A
  failed writability check is reported to the diagnostic log (section 7).\<close>

definition not_writable :: "'x state \<Rightarrow> ref \<Rightarrow> name \<Rightarrow> 'x state" where
  "not_writable s obj name = s\<lparr>errorlog := errorlog s @ [(obj, name)]\<rparr>"

subsection \<open>The write path\<close>

text \<open>\<^verbatim>\<open>_check_writable\<close>: the loop over \<^verbatim>\<open>obj.cls.mro\<close>, then the method.\<close>

fun check_writable_mro :: "'x env \<Rightarrow> 'x state \<Rightarrow> name \<Rightarrow> ref list \<Rightarrow> bool" where
  "check_writable_mro E s name [] = False"
| "check_writable_mro E s name (baseclass # rest) =
     (if full_name E baseclass = ''builtins.object'' then check_writable_mro E s name rest
      else if isinstance E baseclass abstract_SimpleValue \<and>
              (contains E s baseclass ''__setattr__'' \<or> contains E s baseclass name) then True
      else if (case slots E baseclass of None \<Rightarrow> True | Some sl \<Rightarrow> name \<in> set sl) then True
      else check_writable_mro E s name rest)"

definition check_writable :: "'x env \<Rightarrow> 'x state \<Rightarrow> ref \<Rightarrow> name \<Rightarrow> bool \<times> 'x state" where
  "check_writable E s obj name =
     (if mro E (cls_of s obj) = [] then (True, s)
      else if check_writable_mro E s name (mro E (cls_of s obj)) then (True, s)
      else (False, not_writable s obj name))"

text \<open>\<^verbatim>\<open>_maybe_load_as_instance_attribute\<close>.\<close>

definition store_loaded :: "'x state \<Rightarrow> node \<Rightarrow> ref \<Rightarrow> name \<Rightarrow> var \<Rightarrow> 'x state" where
  "store_loaded s node obj name var =
     (case members s obj name of
        Some variable \<Rightarrow> PasteVariable s variable var (Some node)
      | None \<Rightarrow> s\<lparr>members := (members s)(obj := (members s obj)(name \<mapsto> var))\<rparr>)"

fun maybe_load_mro :: "'x env \<Rightarrow> 'x state \<Rightarrow> node \<Rightarrow> ref \<Rightarrow> name \<Rightarrow> ref list \<Rightarrow> 'x state" where
  "maybe_load_mro E s node obj name [] = s"
| "maybe_load_mro E s node obj name (base0 # rest) =
     (let base = (if isinstance E base0 abstract_ParameterizedClass then base_cls E base0 else base0)
      in if isinstance E base abstract_PyTDClass then
           (case convert_as_instance_attribute E s base name obj of
              (Some var, s1) \<Rightarrow> store_loaded s1 node obj name var
            | (None, s1) \<Rightarrow> maybe_load_mro E s1 node obj name rest)
         else maybe_load_mro E s node obj name rest)"

definition maybe_load_as_instance_attribute ::
  "'x env \<Rightarrow> 'x state \<Rightarrow> node \<Rightarrow> ref \<Rightarrow> name \<Rightarrow> 'x state outcome" where
  "maybe_load_as_instance_attribute E s node obj name =
     (if \<not> isinstance E obj abstract_SimpleValue then Raised AssertionError
      else if \<not> isinstance E (cls_of s obj) class_mixin_Class then Done s
      else Done (maybe_load_mro E s node obj name (mro E (cls_of s obj))))"

text \<open>\<^verbatim>\<open>_set_member\<close>. \<open>lazy_loaded\<close> is the state after its first statement. A
  Variable has no length and no truth value of its own, so \<^verbatim>\<open>if variable:\<close> tests that
  the mapping holds one.\<close>

definition lazy_loaded :: "'x env \<Rightarrow> 'x state \<Rightarrow> ref \<Rightarrow> name \<Rightarrow> 'x state" where
  "lazy_loaded E s obj name =
     (if isinstance E obj mixin_LazyMembers then load_lazy_attribute E s obj name None else s)"

definition set_member ::
  "'x env \<Rightarrow> 'x state \<Rightarrow> node \<Rightarrow> ref \<Rightarrow> name \<Rightarrow> var \<Rightarrow> (node \<times> 'x state) outcome" where
  "set_member E s node obj name var =
     (let s1 = lazy_loaded E s obj name in
      if name = ''__class__'' then Done (set_class E s1 obj node var)
      else if (isinstance E obj abstract_PyTDFunction \<or> isinstance E obj abstract_SignedFunction)
              \<and> name = ''__defaults__''
        then Done (node, s1\<lparr>ext := set_function_defaults E s1 obj node var\<rparr>)
      else
        and_then
          (if isinstance E obj abstract_Instance \<and> members s1 obj name = None
           then maybe_load_as_instance_attribute E s1 (root_node E) obj name
           else Done s1)
          (\<lambda>s2. case members s2 obj name of
                  Some variable \<Rightarrow> Done (node, PasteVariable s2 variable var (Some node))
                | None \<Rightarrow>
                    (case AssignToNewVariable s2 var (Some node) of (variable, s3) \<Rightarrow>
                       Done (node, s3\<lparr>members := (members s3)(obj := (members s3 obj)(name \<mapsto> variable))\<rparr>))))"

text \<open>\<^verbatim>\<open>set_attribute\<close>. \<open>official_names\<close> is the state after the update of the
  official names (the statement under \<^verbatim>\<open>obj is self.vm.frame.f_globals\<close>);
  \<open>set_attribute_dispatch\<close> is the chain of \<^verbatim>\<open>isinstance\<close> tests that follows, with
  \<open>self\<close> for the recursive \<^verbatim>\<open>self.set_attribute\<close>. The calls of \<^verbatim>\<open>logging\<close> have no
  effect on the state and are left out.\<close>

definition official_names :: "'x env \<Rightarrow> 'x state \<Rightarrow> ref \<Rightarrow> name \<Rightarrow> var \<Rightarrow> 'x state" where
  "official_names E s obj name value =
     (if f_globals E (ext s) = Some obj
      then fold (\<lambda>v s'. s'\<lparr>ext := update_official_name E s' v name\<rparr>) (map data (variables s value)) s
      else s)"

fun set_attribute_options ::
  "('x state \<Rightarrow> node \<Rightarrow> ref \<Rightarrow> name \<Rightarrow> var \<Rightarrow> (node \<times> 'x state) outcome) \<Rightarrow>
   'x state \<Rightarrow> node \<Rightarrow> ref list \<Rightarrow> name \<Rightarrow> var \<Rightarrow> (node \<times> 'x state) outcome" where
  "set_attribute_options self s node [] name value = Done (node, s)"
| "set_attribute_options self s node (opt # rest) name value =
     and_then (self s node opt name value)
       (\<lambda>(node1, s1). set_attribute_options self s1 node1 rest name value)"

fun set_attribute_values ::
  "('x state \<Rightarrow> node \<Rightarrow> ref \<Rightarrow> name \<Rightarrow> var \<Rightarrow> (node \<times> 'x state) outcome) \<Rightarrow>
   'x state \<Rightarrow> node \<Rightarrow> ref list \<Rightarrow> name \<Rightarrow> var \<Rightarrow> node list \<Rightarrow> (node list \<times> 'x state) outcome" where
  "set_attribute_values self s node [] name value nodes = Done (nodes, s)"
| "set_attribute_values self s node (v # rest) name value nodes =
     and_then (self s node v name value)
       (\<lambda>(node1, s1). set_attribute_values self s1 node rest name value (nodes @ [node1]))"

definition set_attribute_dispatch ::
  "'x env \<Rightarrow> ('x state \<Rightarrow> node \<Rightarrow> ref \<Rightarrow> name \<Rightarrow> var \<Rightarrow> (node \<times> 'x state) outcome) \<Rightarrow>
   'x state \<Rightarrow> node \<Rightarrow> ref \<Rightarrow> name \<Rightarrow> var \<Rightarrow> (node \<times> 'x state) outcome" where
  "set_attribute_dispatch E self s0 node obj name value =
     (let s = official_names E s0 obj name value in
      if isinstance E obj abstract_Empty then Done (node, s)
      else if isinstance E obj abstract_Module then Done (node, s)
      else if isinstance E obj abstract_StaticMethod \<or> isinstance E obj abstract_ClassMethod
        then self s node (method_of E obj) name value
      else if isinstance E obj abstract_SimpleValue then set_member E s node obj name value
      else if isinstance E obj abstract_BoundFunction then self s node (underlying E obj) name value
      else if isinstance E obj abstract_Unsolvable then Done (node, s)
      else if isinstance E obj abstract_Unknown then
        (case members s obj name of
           Some variable \<Rightarrow> Done (node, PasteVariable s variable value (Some node))
         | None \<Rightarrow>
             (case AssignToNewVariable s value (Some node) of (variable, s1) \<Rightarrow>
                Done (node, s1\<lparr>members := (members s1)(obj := (members s1 obj)(name \<mapsto> variable))\<rparr>)))
      else if isinstance E obj abstract_TypeParameterInstance then
        (case get_instance_type_parameter E s (instance_of E obj) (name_of E obj) of (pv, s1) \<Rightarrow>
           and_then (set_attribute_values self s1 node (map data (variables s1 pv)) name value [])
             (\<lambda>(nodes, s2). Done (if nodes \<noteq> [] then join_cfg_nodes E nodes else node, s2)))
      else if isinstance E obj abstract_Union then
        set_attribute_options self s node (options E obj) name value
      else Raised (NotImplementedError (class_name E obj)))"

definition set_attribute_body ::
  "'x env \<Rightarrow> ('x state \<Rightarrow> node \<Rightarrow> ref \<Rightarrow> name \<Rightarrow> var \<Rightarrow> (node \<times> 'x state) outcome) \<Rightarrow>
   'x state \<Rightarrow> node \<Rightarrow> ref \<Rightarrow> name \<Rightarrow> var \<Rightarrow> (node \<times> 'x state) outcome" where
  "set_attribute_body E self s node obj name value =
     (case check_writable E s obj name of
        (False, s1) \<Rightarrow> Done (node, s1)
      | (True, s1) \<Rightarrow> set_attribute_dispatch E self s1 node obj name value)"

primrec set_attribute ::
  "'x env \<Rightarrow> nat \<Rightarrow> 'x state \<Rightarrow> node \<Rightarrow> ref \<Rightarrow> name \<Rightarrow> var \<Rightarrow> (node \<times> 'x state) outcome" where
  "set_attribute E 0 = (\<lambda>s node obj name value. Diverged)"
| "set_attribute E (Suc fuel) = set_attribute_body E (set_attribute E fuel)"

subsection \<open>Visibility filtering\<close>

text \<open>\<^verbatim>\<open>_filter_var\<close>. Its loop appends to the list it iterates over
  (\<^verbatim>\<open>bindings.extend(var_bindings)\<close>), so the loop is a work list, and one unit of fuel
  is spent for every Binding taken from it. The two early returns spend none.\<close>

fun filter_var_loop ::
  "'x env \<Rightarrow> nat \<Rightarrow> 'x state \<Rightarrow> node \<Rightarrow> var \<Rightarrow> binding list \<Rightarrow> 'x state outcome" where
  "filter_var_loop E fuel s node ret [] = Done s"
| "filter_var_loop E 0 s node ret (b # rest) = Diverged"
| "filter_var_loop E (Suc fuel) s node ret (b # rest) =
     (let val = data b in
      if isinstance E val abstract_TypeParameterInstance then
        (case get_instance_type_parameter E s (instance_of E val) (name_of E val) of (var, s1) \<Rightarrow>
           let var_bindings = Bindings E s1 var node True in
           if var_bindings \<noteq> [] then filter_var_loop E fuel s1 node ret (rest @ var_bindings)
           else if constraints E (param E val) \<noteq> [] \<or> bound E (param E val) \<noteq> None then
             (case instantiate E s1 (param E val) node of (pv, s2) \<Rightarrow>
                filter_var_loop E fuel (PasteVariable s2 ret pv None) node ret rest)
           else filter_var_loop E fuel (AddBinding s1 ret (empty E) node) node ret rest)
      else filter_var_loop E fuel (AddBinding s ret val node) node ret rest)"

definition filter_var ::
  "'x env \<Rightarrow> nat \<Rightarrow> 'x state \<Rightarrow> node \<Rightarrow> var \<Rightarrow> (var option \<times> 'x state) outcome" where
  "filter_var E fuel s node var =
     (let bindings = Bindings E s var node False in
      if bindings = [] then Done (None, s)
      else if length bindings = length (variables s var) \<and>
              \<not> (\<exists>b \<in> set bindings. isinstance E (data b) abstract_TypeParameterInstance)
        then Done (Some var, s)
      else
        (case NewVariable s of (ret, s1) \<Rightarrow>
           and_then (filter_var_loop E fuel s1 node ret bindings)
             (\<lambda>s2. Done (if variables s2 ret \<noteq> [] then Some ret else None, s2))))"

subsection \<open>The read path\<close>

type_synonym 'x attr_result = "((node \<times> var option) \<times> 'x state) outcome"

type_synonym 'x getter =
  "'x state \<Rightarrow> node \<Rightarrow> ref \<Rightarrow> name \<Rightarrow> binding option \<Rightarrow> 'x attr_result"

text \<open>The methods below call \<^verbatim>\<open>self.get_attribute\<close>, which calls them: the argument
  \<open>self\<close> is that method, with less fuel. \<^verbatim>\<open>_get_member\<close> first; \<open>lazy_subst\<close> is its
  dictionary comprehension.\<close>

fun lazy_subst ::
  "'x env \<Rightarrow> 'x state \<Rightarrow> node \<Rightarrow> ref \<Rightarrow> (name \<times> ref) list \<Rightarrow> (string \<times> var) list \<times> 'x state" where
  "lazy_subst E s node c [] = ([], s)"
| "lazy_subst E s node c ((k, v) # rest) =
     (case instantiate E s v node of (iv, s1) \<Rightarrow>
        (case lazy_subst E s1 node c rest of (subst, s2) \<Rightarrow>
           ((full_name E c @ ''.'' @ k, iv) # subst, s2)))"

definition get_member ::
  "'x env \<Rightarrow> 'x state \<Rightarrow> node \<Rightarrow> ref \<Rightarrow> name \<Rightarrow> binding option \<Rightarrow> 'x attr_result" where
  "get_member E s node obj name valself =
     (let s1 =
        (if isinstance E obj mixin_LazyMembers then
           (case valself of
              None \<Rightarrow> load_lazy_attribute E s obj name None
            | Some vs \<Rightarrow>
                if isinstance E (data vs) abstract_ParameterizedClass then
                  (case lazy_subst E s node (data vs) (formal_type_parameters E (data vs)) of
                     (subst, s') \<Rightarrow> load_lazy_attribute E s' obj name (Some subst))
                else load_lazy_attribute E s obj name None)
         else s)
      in and_then
           (if isinstance E obj abstract_Instance \<and>
               (case members s1 obj name of None \<Rightarrow> True | Some v \<Rightarrow> variables s1 v = [])
            then maybe_load_as_instance_attribute E s1 node obj name
            else Done s1)
           (\<lambda>s2. case members s2 obj name of
                   None \<Rightarrow> Done ((node, None), s2)
                 | Some v \<Rightarrow>
                     if Bindings E s2 v node True \<noteq> [] then Done ((node, Some v), s2)
                     else Done ((node, None), s2)))"

text \<open>\<^verbatim>\<open>_get_attribute_flat\<close>, which calls itself on the base of a parameterized class.\<close>

primrec get_attribute_flat :: "'x env \<Rightarrow> 'x getter \<Rightarrow> nat \<Rightarrow> 'x getter" where
  "get_attribute_flat E self 0 = (\<lambda>s node cls name valself. Diverged)"
| "get_attribute_flat E self (Suc fuel) = (\<lambda>s node cls name valself.
     if isinstance E cls abstract_ParameterizedClass
       then get_attribute_flat E self fuel s node (base_cls E cls) name valself
     else if isinstance E cls class_mixin_Class then
       and_then (get_member E s node cls name valself)
         (\<lambda>((node1, attr), s1).
            case attr of
              None \<Rightarrow> Done ((node1, None), s1)
            | Some a \<Rightarrow>
                and_then (filter_var E fuel s1 node1 a) (\<lambda>(attr', s2). Done ((node1, attr'), s2)))
     else if isinstance_any E cls [abstract_Unknown, abstract_Unsolvable]
       then self s node cls name None
     else Done ((node, None), s))"

text \<open>\<^verbatim>\<open>_lookup_from_mro\<close>: \<open>lookup_bind\<close> is the loop over \<^verbatim>\<open>var.bindings\<close> (binding to
  self, invoking a property), \<open>lookup_base\<close> the two statements that compute \<^verbatim>\<open>var\<close> for
  one class, \<open>lookup_mro\<close> the loop over \<^verbatim>\<open>cls.mro\<close>. The method returns the Variable
  only; the node its loops advance is dropped, as in the source.\<close>

fun lookup_bind ::
  "'x env \<Rightarrow> 'x state \<Rightarrow> node \<Rightarrow> ref \<Rightarrow> ref \<Rightarrow> binding option \<Rightarrow> var \<Rightarrow> binding list \<Rightarrow>
   node \<times> 'x state" where
  "lookup_bind E s node cls base valself ret [] = (node, s)"
| "lookup_bind E s node cls base valself ret (varval # rest) =
     (case valself of
        None \<Rightarrow> lookup_bind E (AddBinding s ret (data varval) node) node cls base valself ret rest
      | Some vs \<Rightarrow>
          (case (if \<not> isinstance E (data varval) abstract_PyTDFunction \<or>
                    \<not> isinstance E base abstract_InterpreterClass
                 then (case Binding_AssignToNewVariable s vs (Some node) of (callself, s1) \<Rightarrow>
                         property_get E s1 (data varval) callself (equivalent_to E vs cls))
                 else (data varval, s)) of
             (value, s2) \<Rightarrow>
               if isinstance E value abstract_Property then
                 (case property_call E s2 value node of ((node1, pv), s3) \<Rightarrow>
                    lookup_bind E
                      (fold (\<lambda>final_value s'. AddBinding s' ret final_value node1)
                         (map data (variables s3 pv)) s3)
                      node1 cls base valself ret rest)
               else lookup_bind E (AddBinding s2 ret value node) node cls base valself ret rest))"

definition lookup_base :: "'x env \<Rightarrow> 'x getter \<Rightarrow> nat \<Rightarrow> 'x getter" where
  "lookup_base E self fuel s node base name valself =
     (case get_special_attribute E s base node name valself of
        (Some v, s1) \<Rightarrow> Done ((node, Some v), s1)
      | (None, s1) \<Rightarrow> get_attribute_flat E self fuel s1 node base name valself)"

fun lookup_mro ::
  "'x env \<Rightarrow> 'x getter \<Rightarrow> nat \<Rightarrow> 'x state \<Rightarrow> node \<Rightarrow> ref \<Rightarrow> name \<Rightarrow> binding option \<Rightarrow>
   ref set \<Rightarrow> var \<Rightarrow> ref list \<Rightarrow> 'x state outcome" where
  "lookup_mro E self fuel s node cls name valself skip ret [] = Done s"
| "lookup_mro E self fuel s node cls name valself skip ret (base # rest) =
     (if base \<in> skip then lookup_mro E self fuel s node cls name valself skip ret rest
      else
        and_then (lookup_base E self fuel s node base name valself)
          (\<lambda>((node1, var), s1).
             case var of
               None \<Rightarrow> lookup_mro E self fuel s1 node1 cls name valself skip ret rest
             | Some v \<Rightarrow>
                 if variables s1 v = []
                   then lookup_mro E self fuel s1 node1 cls name valself skip ret rest
                 else Done (snd (lookup_bind E s1 node1 cls base valself ret (variables s1 v)))))"

definition lookup_from_mro ::
  "'x env \<Rightarrow> 'x getter \<Rightarrow> nat \<Rightarrow> 'x state \<Rightarrow> node \<Rightarrow> ref \<Rightarrow> name \<Rightarrow> binding option \<Rightarrow>
   ref set \<Rightarrow> (var \<times> 'x state) outcome" where
  "lookup_from_mro E self fuel s node cls name valself skip =
     (if isinstance_any E cls [abstract_Unknown, abstract_Unsolvable]
        then Done (new_unsolvable E s node)
      else
        (case NewVariable s of (ret, s1) \<Rightarrow>
           and_then (lookup_mro E self fuel s1 node cls name valself skip ret (mro E cls))
             (\<lambda>s2. Done (ret, s2))))"

text \<open>\<^verbatim>\<open>_computable\<close> and \<^verbatim>\<open>_get_attribute_computed\<close>.\<close>

definition computable :: "name \<Rightarrow> bool" where
  "computable name = (\<not> (take 2 name = ''__'' \<and> drop (length name - 2) name = ''__''))"

definition get_attribute_computed ::
  "'x env \<Rightarrow> 'x getter \<Rightarrow> nat \<Rightarrow> 'x state \<Rightarrow> node \<Rightarrow> ref \<Rightarrow> name \<Rightarrow> binding option \<Rightarrow>
   string \<Rightarrow> 'x attr_result" where
  "get_attribute_computed E self fuel s node cls name valself compute_function =
     (if \<not> isinstance_any E cls (class_mixin_Class # AMBIGUOUS_OR_EMPTY) then Raised AssertionError
      else
        (case valself of
           None \<Rightarrow> Done ((node, None), s)
         | Some vs \<Rightarrow>
             if \<not> isinstance E (data vs) abstract_Module \<and> computable name then
               and_then
                 (lookup_from_mro E self fuel s node cls compute_function valself {object_type E})
                 (\<lambda>(attr_var, s1).
                    if variables s1 attr_var \<noteq> [] then
                      (case constant_to_var E s1 name node of (name_var, s2) \<Rightarrow>
                         (case call_function E s2 node attr_var [name_var] of
                            ((node1, r), s3) \<Rightarrow> Done ((node1, Some r), s3)))
                    else Done ((node, None), s1))
             else Done ((node, None), s)))"

text \<open>\<^verbatim>\<open>_lookup_from_mro_and_handle_descriptors\<close>; \<open>handle_descriptors\<close> is its loop.\<close>

fun handle_descriptors ::
  "'x env \<Rightarrow> 'x getter \<Rightarrow> 'x state \<Rightarrow> node \<Rightarrow> ref \<Rightarrow> binding option \<Rightarrow> var \<Rightarrow> binding list \<Rightarrow>
   node list \<Rightarrow> (node list \<times> 'x state) outcome" where
  "handle_descriptors E self s node cls valself result [] nodes = Done (nodes, s)"
| "handle_descriptors E self s node cls valself result (v # rest) nodes =
     and_then
       (if isinstance E (data v) special_builtins_PropertyInstance \<and>
           (case valself of None \<Rightarrow> False | Some vs \<Rightarrow> data vs = cls)
        then Done ((node, None), s)
        else self s node (data v) ''__get__'' (Some v))
       (\<lambda>((node2, getter), s1).
          case getter of
            None \<Rightarrow>
              handle_descriptors E self (AddBinding s1 result (data v) node2) node cls valself
                result rest (nodes @ [node2])
          | Some g \<Rightarrow>
              (case (case valself of
                       None \<Rightarrow> to_variable s1 (none E) node
                     | Some vs \<Rightarrow>
                         if data vs \<noteq> cls then Binding_AssignToNewVariable s1 vs None
                         else to_variable s1 (none E) node) of
                 (arg0, s2) \<Rightarrow>
                   (case to_variable s2 cls node of (arg1, s3) \<Rightarrow>
                      (case call_function E s3 node2 g [arg0, arg1] of
                         ((node3, get_result), s4) \<Rightarrow>
                           handle_descriptors E self
                             (fold (\<lambda>d s'. AddBinding s' result d node3)
                                (map data (variables s4 get_result)) s4)
                             node cls valself result rest (nodes @ [node3])))))"

definition lookup_from_mro_and_handle_descriptors ::
  "'x env \<Rightarrow> 'x getter \<Rightarrow> nat \<Rightarrow> 'x state \<Rightarrow> node \<Rightarrow> ref \<Rightarrow> name \<Rightarrow> binding option \<Rightarrow>
   ref set \<Rightarrow> 'x attr_result" where
  "lookup_from_mro_and_handle_descriptors E self fuel s node cls name valself skip =
     and_then (lookup_from_mro E self fuel s node cls name valself skip)
       (\<lambda>(attr, s1).
          if variables s1 attr = [] then Done ((node, None), s1)
          else if isinstance E cls abstract_InterpreterClass then
            (case NewVariable s1 of (result, s2) \<Rightarrow>
               and_then (handle_descriptors E self s2 node cls valself result (variables s2 attr) [])
                 (\<lambda>(nodes, s3).
                    if nodes \<noteq> [] then Done ((join_cfg_nodes E nodes, Some result), s3)
                    else Done ((node, Some attr), s3)))
          else Done ((node, Some attr), s1))"

text \<open>\<^verbatim>\<open>_get_attribute_from_super_instance\<close>; \<open>super_skip\<close> is the loop that builds
  \<^verbatim>\<open>skip\<close>.\<close>

fun super_skip :: "'x env \<Rightarrow> ref \<Rightarrow> ref list \<Rightarrow> ref set" where
  "super_skip E current_cls [] = {}"
| "super_skip E current_cls (parent # rest) =
     (if full_name E parent = full_name E current_cls then {parent}
      else insert parent (super_skip E current_cls rest))"

definition get_attribute_from_super_instance ::
  "'x env \<Rightarrow> 'x getter \<Rightarrow> nat \<Rightarrow> 'x getter" where
  "get_attribute_from_super_instance E self fuel s node obj name valself =
     (case super_obj E obj of
        None \<Rightarrow>
          lookup_from_mro_and_handle_descriptors E self fuel s node (super_type E) name valself {}
      | Some so \<Rightarrow>
          (let starting_cls =
             (if full_name E (cls_of s so) = ''builtins.type'' \<or>
                 isinstance_any E (cls_of s so) AMBIGUOUS_OR_EMPTY \<or>
                 isinstance_any E (super_cls E obj) AMBIGUOUS_OR_EMPTY
                then super_cls E obj
              else if super_cls E obj \<in> set (mro E so) then so
              else cls_of s so);
             current_cls = super_cls E obj
           in (case to_binding s so node of (valself', s1) \<Rightarrow>
                 lookup_from_mro_and_handle_descriptors E self fuel s1 node starting_cls name
                   (Some valself') (super_skip E current_cls (mro E starting_cls)))))"

text \<open>\<^verbatim>\<open>_get_attribute\<close>. \<open>annotated\<close> is its loop over \<^verbatim>\<open>obj.mro\<close> for declared fields,
  \<open>get_attribute_finish\<close> that loop and the final filtering; \<open>get_attribute'\<close> is the
  method. \<open>get_annotations_dict E s base\<close> is \<^verbatim>\<open>get_annotations_dict(base.members)\<close>,
  \<open>None\<close> when the result is not true.\<close>

fun annotated ::
  "'x env \<Rightarrow> 'x state \<Rightarrow> node \<Rightarrow> name \<Rightarrow> binding option \<Rightarrow> var option \<Rightarrow> ref list \<Rightarrow>
   var option \<times> 'x state" where
  "annotated E s node name valself attr [] = (attr, s)"
| "annotated E s node name valself attr (base # rest) =
     (if \<not> isinstance E base abstract_InterpreterClass then (attr, s)
      else
        (case get_annotations_dict E s base of
           None \<Rightarrow> annotated E s node name valself attr rest
         | Some annots \<Rightarrow>
             (case get_type E s annots node name of
                None \<Rightarrow> annotated E s node name valself attr rest
              | Some typ \<Rightarrow>
                  (case (if formal E typ then valself else None) of
                     Some vs \<Rightarrow>
                       (let subst = get_type_parameter_substitutions E s (data vs)
                                      (get_type_parameters E s typ)
                        in (case sub_one_annotation E s node typ [subst] of (typ', s1) \<Rightarrow>
                              (case init_annotation E s1 node name typ' of (a, s2) \<Rightarrow>
                                 (Some a, s2))))
                   | None \<Rightarrow>
                       if attr = None then
                         (case init_annotation E s node name typ of (a, s1) \<Rightarrow> (Some a, s1))
                       else (attr, s)))))"

definition get_attribute_finish ::
  "'x env \<Rightarrow> nat \<Rightarrow> 'x state \<Rightarrow> node \<Rightarrow> ref \<Rightarrow> name \<Rightarrow> binding option \<Rightarrow> var option \<Rightarrow>
   'x attr_result" where
  "get_attribute_finish E fuel s node obj name valself attr =
     (case annotated E s node name valself attr (mro E obj) of (attr', s1) \<Rightarrow>
        (case attr' of
           None \<Rightarrow> Done ((node, None), s1)
         | Some a \<Rightarrow> and_then (filter_var E fuel s1 node a) (\<lambda>(r, s2). Done ((node, r), s2))))"

definition get_attribute' ::
  "'x env \<Rightarrow> 'x getter \<Rightarrow> nat \<Rightarrow> 'x state \<Rightarrow> node \<Rightarrow> ref \<Rightarrow> ref option \<Rightarrow> name \<Rightarrow>
   binding option \<Rightarrow> 'x attr_result" where
  "get_attribute' E self fuel s node obj cls name valself =
     and_then
       (case cls of
          Some c \<Rightarrow> get_attribute_computed E self fuel s node c name valself ''__getattribute__''
        | None \<Rightarrow> Done ((node, None), s))
       (\<lambda>((node1, attr1), s1).
     and_then
       (if attr1 = None then
          (if isinstance E obj class_mixin_Class
             then lookup_from_mro_and_handle_descriptors E self fuel s1 node1 obj name valself {}
           else get_member E s1 node1 obj name valself)
        else Done ((node1, attr1), s1))
       (\<lambda>((node2, attr2), s2).
     (case (if attr2 = None \<and> maybe_missing_members E obj
            then (case new_unsolvable E s2 node2 of (u, s') \<Rightarrow> (Some u, s'))
            else (attr2, s2)) of
        (attr3, s3) \<Rightarrow>
     and_then
       (case cls of
          None \<Rightarrow> Done ((node2, attr3), s3)
        | Some c \<Rightarrow>
            if attr3 = None then
              and_then (self s3 node2 c name valself)
                (\<lambda>((node3, attr4), s4).
                   if attr4 = None
                     then get_attribute_computed E self fuel s4 node3 c name valself ''__getattr__''
                   else Done ((node3, attr4), s4))
            else Done ((node2, attr3), s3))
       (\<lambda>((node4, attr5), s5). get_attribute_finish E fuel s5 node4 obj name valself attr5))))"

text \<open>\<^verbatim>\<open>_get_instance_attribute\<close> and \<^verbatim>\<open>_get_class_attribute\<close>; \<open>class_attribute_meta\<close> is
  the choice of \<^verbatim>\<open>meta\<close> in the latter.\<close>

definition get_instance_attribute :: "'x env \<Rightarrow> 'x getter \<Rightarrow> nat \<Rightarrow> 'x getter" where
  "get_instance_attribute E self fuel s node obj name valself =
     (if \<not> isinstance E obj abstract_SimpleValue then Raised AssertionError
      else get_attribute' E self fuel s node obj
             (if full_name E (cls_of s obj) = ''builtins.type'' then None else Some (cls_of s obj))
             name valself)"

definition class_attribute_meta :: "'x env \<Rightarrow> 'x state \<Rightarrow> ref \<Rightarrow> binding option \<Rightarrow> ref option" where
  "class_attribute_meta E s cls valself =
     (case valself of
        None \<Rightarrow> None
      | Some vs \<Rightarrow> if \<not> equivalent_to E vs cls \<or> cls = type_type E then None else Some (cls_of s cls))"

definition get_class_attribute :: "'x env \<Rightarrow> 'x getter \<Rightarrow> nat \<Rightarrow> 'x getter" where
  "get_class_attribute E self fuel s node cls name valself =
     (if \<not> isinstance E cls class_mixin_Class then Raised AssertionError
      else get_attribute' E self fuel s node cls (class_attribute_meta E s cls valself) name valself)"

text \<open>\<^verbatim>\<open>_should_look_for_submodule\<close> and \<^verbatim>\<open>_get_module_attribute\<close>.\<close>

definition should_look_for_submodule :: "'x env \<Rightarrow> 'x state \<Rightarrow> ref \<Rightarrow> var option \<Rightarrow> bool" where
  "should_look_for_submodule E s module attr_var =
     (case attr_var of
        None \<Rightarrow> True
      | Some av \<Rightarrow>
          (let attr_data = map data (variables s av);
               attr_cls = merge_classes E s attr_data
           in if attr_cls = module_type E \<and>
                 \<not> (\<exists>attr \<in> set attr_data. isinstance E attr abstract_Module) then True
              else if name_of E module @ ''.__init__'' = options_module_name E \<and>
                      attr_data = [unsolvable E] then True
              else False))"

definition get_module_attribute :: "'x env \<Rightarrow> 'x getter \<Rightarrow> nat \<Rightarrow> 'x getter" where
  "get_module_attribute E self fuel s node module name valself =
     (if \<not> isinstance E module abstract_Module then Raised AssertionError
      else
        and_then (get_instance_attribute E self fuel s node module name valself)
          (\<lambda>((node1, var), s1).
             if \<not> should_look_for_submodule E s1 module var then Done ((node1, var), s1)
             else
               (case get_submodule E s1 module node1 name of
                  (Some sub, s2) \<Rightarrow> Done ((node1, Some sub), s2)
                | (None, s2) \<Rightarrow> Done ((node1, var), s2))))"

text \<open>\<^verbatim>\<open>get_attribute\<close>. \<open>union_options\<close> and \<open>get_attribute_union\<close> are its branch for
  \<^verbatim>\<open>abstract.Union\<close>; \<open>parameter_values\<close> and \<open>get_attribute_type_parameter\<close> its branch for
  \<^verbatim>\<open>abstract.TypeParameterInstance\<close>, where \<open>None\<close> is the return from inside the loop;
  \<open>get_attribute_body\<close> is the method.\<close>

fun union_options ::
  "'x getter \<Rightarrow> 'x state \<Rightarrow> node \<Rightarrow> name \<Rightarrow> binding option \<Rightarrow> var \<Rightarrow> ref list \<Rightarrow> node list \<Rightarrow>
   (node list \<times> 'x state) outcome" where
  "union_options self s node name valself ret [] nodes = Done (nodes, s)"
| "union_options self s node name valself ret (opt # rest) nodes =
     and_then (self s node opt name valself)
       (\<lambda>((node2, attr), s1).
          case attr of
            None \<Rightarrow> union_options self s1 node name valself ret rest nodes
          | Some a \<Rightarrow>
              union_options self (PasteVariable s1 ret a (Some node2)) node name valself ret rest
                (nodes @ [node2]))"

definition get_attribute_union :: "'x env \<Rightarrow> 'x getter \<Rightarrow> 'x getter" where
  "get_attribute_union E self s node obj name valself =
     (if name = ''__getitem__'' then
        (case new_unsolvable E s node of (u, s1) \<Rightarrow> Done ((node, Some u), s1))
      else
        (case NewVariable s of (ret, s1) \<Rightarrow>
           and_then (union_options self s1 node name valself ret (options E obj) [])
             (\<lambda>(nodes, s2).
                if variables s2 ret \<noteq> [] then Done ((join_cfg_nodes E nodes, Some ret), s2)
                else Done ((node, None), s2))))"

fun parameter_values ::
  "'x env \<Rightarrow> 'x getter \<Rightarrow> 'x state \<Rightarrow> node \<Rightarrow> name \<Rightarrow> binding option \<Rightarrow> binding list \<Rightarrow>
   var list \<Rightarrow> node list \<Rightarrow> ((var list \<times> node list) option \<times> 'x state) outcome" where
  "parameter_values E self s node name valself [] results nodes = Done (Some (results, nodes), s)"
| "parameter_values E self s node name valself (b # rest) results nodes =
     and_then (self s node (data b) name valself)
       (\<lambda>((node2, ret), s1).
          case ret of
            None \<Rightarrow>
              if IsVisible E b node then Done (None, s1)
              else parameter_values E self s1 node name valself rest results nodes
          | Some r \<Rightarrow>
              parameter_values E self s1 node name valself rest (results @ [r]) (nodes @ [node2]))"

definition get_attribute_type_parameter :: "'x env \<Rightarrow> 'x getter \<Rightarrow> 'x getter" where
  "get_attribute_type_parameter E self s node obj name valself =
     (case get_instance_type_parameter E s (instance_of E obj) (name_of E obj) of (pv, s1) \<Rightarrow>
        (case (if variables s1 pv = [] then instantiate E s1 (param E obj) (root_node E)
               else (pv, s1)) of
           (param_var, s2) \<Rightarrow>
             and_then (parameter_values E self s2 node name valself (variables s2 param_var) [] [])
               (\<lambda>(found, s3).
                  case found of
                    None \<Rightarrow> Done ((node, None), s3)
                  | Some (results, nodes) \<Rightarrow>
                      if nodes \<noteq> [] then
                        (case join_variables E s3 (join_cfg_nodes E nodes) results of
                           (joined, s4) \<Rightarrow> Done ((join_cfg_nodes E nodes, Some joined), s4))
                      else
                        (case new_unsolvable E s3 node of (u, s4) \<Rightarrow> Done ((node, Some u), s4)))))"

definition get_attribute_body :: "'x env \<Rightarrow> 'x getter \<Rightarrow> nat \<Rightarrow> 'x getter" where
  "get_attribute_body E self fuel s0 node obj name valself =
     (case get_special_attribute E s0 obj node name valself of
        (Some special_attribute, s) \<Rightarrow> Done ((node, Some special_attribute), s)
      | (None, s) \<Rightarrow>
          if isinstance E obj abstract_Function then
            (if name = ''__get__'' then Done ((node, None), s)
             else get_instance_attribute E self fuel s node obj name valself)
          else if isinstance E obj abstract_ParameterizedClass
            then self s node (base_cls E obj) name valself
          else if isinstance E obj class_mixin_Class
            then get_class_attribute E self fuel s node obj name valself
          else if isinstance E obj overlay_Overlay
            then get_module_attribute E self fuel s node (get_module E s obj name) name valself
          else if isinstance E obj abstract_Module
            then get_module_attribute E self fuel s node obj name valself
          else if isinstance E obj abstract_SimpleValue
            then get_instance_attribute E self fuel s node obj name valself
          else if isinstance E obj abstract_Union
            then get_attribute_union E self s node obj name valself
          else if isinstance E obj special_builtins_SuperInstance
            then get_attribute_from_super_instance E self fuel s node obj name valself
          else if isinstance E obj special_builtins_Super
            then self s node (super_type E) name valself
          else if isinstance E obj abstract_BoundFunction
            then self s node (underlying E obj) name valself
          else if isinstance E obj abstract_TypeParameterInstance
            then get_attribute_type_parameter E self s node obj name valself
          else if isinstance E obj abstract_Empty then Done ((node, None), s)
          else Done ((node, None), s))"

primrec get_attribute :: "'x env \<Rightarrow> nat \<Rightarrow> 'x getter" where
  "get_attribute E 0 = (\<lambda>s node obj name valself. Diverged)"
| "get_attribute E (Suc fuel) = get_attribute_body E (get_attribute E fuel) fuel"

subsection \<open>Notions used in the statements\<close>

text \<open>The classes that the chain of tests in \<^verbatim>\<open>set_attribute\<close> names.\<close>

definition handled_by_set_attribute :: "pyclass list" where
  "handled_by_set_attribute =
     [abstract_Empty, abstract_Module, abstract_StaticMethod, abstract_ClassMethod,
      abstract_SimpleValue, abstract_BoundFunction, abstract_Unsolvable, abstract_Unknown,
      abstract_TypeParameterInstance, abstract_Union]"

definition unhandled_variant :: "'x env \<Rightarrow> error \<Rightarrow> bool" where
  "unhandled_variant E e =
     (\<exists>v. e = NotImplementedError (class_name E v) \<and> \<not> isinstance_any E v handled_by_set_attribute)"

text \<open>\<open>asserts_only self\<close>: whatever \<open>self\<close> raises is a failed assertion.\<close>

definition asserts_only :: "'x getter \<Rightarrow> bool" where
  "asserts_only self =
     (\<forall>s node obj name valself e. self s node obj name valself = Raised e \<longrightarrow> e = AssertionError)"

text \<open>\<open>passed_over\<close> runs the loop of \<^verbatim>\<open>_lookup_from_mro\<close> over classes that it leaves with
  \<^verbatim>\<open>continue\<close>: the result is the node and the state after them, and \<open>None\<close> if one of them
  ends the loop (or its lookup does not return).\<close>

fun passed_over ::
  "'x env \<Rightarrow> 'x getter \<Rightarrow> nat \<Rightarrow> 'x state \<Rightarrow> node \<Rightarrow> name \<Rightarrow> binding option \<Rightarrow> ref set \<Rightarrow>
   ref list \<Rightarrow> (node \<times> 'x state) option" where
  "passed_over E self fuel s node name valself skip [] = Some (node, s)"
| "passed_over E self fuel s node name valself skip (base # rest) =
     (if base \<in> skip then passed_over E self fuel s node name valself skip rest
      else
        (case lookup_base E self fuel s node base name valself of
           Done ((node1, None), s1) \<Rightarrow> passed_over E self fuel s1 node1 name valself skip rest
         | Done ((node1, Some v), s1) \<Rightarrow>
             if variables s1 v = [] then passed_over E self fuel s1 node1 name valself skip rest
             else None
         | Raised e \<Rightarrow> None
         | Diverged \<Rightarrow> None))"

text \<open>\<open>branch_results\<close> reads the attribute from each alternative value of a type
  parameter, in the order of the loop and from the same node, and collects what each
  read returns; \<open>yielded\<close> keeps the reads that found the attribute.\<close>

fun branch_results ::
  "'x getter \<Rightarrow> 'x state \<Rightarrow> node \<Rightarrow> name \<Rightarrow> binding option \<Rightarrow> binding list \<Rightarrow>
   ((node \<times> var option) list \<times> 'x state) outcome" where
  "branch_results self s node name valself [] = Done ([], s)"
| "branch_results self s node name valself (b # rest) =
     and_then (self s node (data b) name valself)
       (\<lambda>(r, s1). and_then (branch_results self s1 node name valself rest)
          (\<lambda>(rs, s2). Done (r # rs, s2)))"

fun yielded :: "(node \<times> var option) list \<Rightarrow> (node \<times> var) list" where
  "yielded [] = []"
| "yielded ((node, None) # rs) = yielded rs"
| "yielded ((node, Some v) # rs) = (node, v) # yielded rs"

definition fails_visibly :: "'x env \<Rightarrow> node \<Rightarrow> binding \<times> (node \<times> var option) \<Rightarrow> bool" where
  "fails_visibly E node br = (IsVisible E (fst br) node \<and> snd (snd br) = None)"

subsection \<open>An example world\<close>

text \<open>
  A small program for the concrete instances below. The values: \<open>0\<close> is
  \<^verbatim>\<open>builtins.object\<close>, \<open>1\<close> is \<^verbatim>\<open>builtins.type\<close>, \<open>2\<close> the class \<^verbatim>\<open>super\<close>, \<open>3\<close> the
  class of modules, \<open>5\<close> the empty value, \<open>6\<close> the unsolvable value (its own class);
  \<open>10\<close> is an interpreted class \<^verbatim>\<open>A(B)\<close>, \<open>11\<close> its base \<^verbatim>\<open>B\<close>, \<open>12\<close> an instance of \<^verbatim>\<open>A\<close>;
  \<open>13\<close> is a class \<^verbatim>\<open>S\<close> with \<^verbatim>\<open>__slots__ = ("x",)\<close> and \<open>14\<close> an instance of it; \<open>15\<close> is a module; \<open>16\<close> a \<^verbatim>\<open>SuperInstance\<close>; \<open>17\<close> a function from a
  type stub and \<open>18\<close> its class; \<open>19\<close> a \<^verbatim>\<open>TypeParameterInstance\<close> of the parameter
  \<^verbatim>\<open>T\<close> of \<open>12\<close>, whose values are held by Variable \<open>50\<close>, its class the unsolvable
  value; \<open>21\<close>, \<open>22\<close> and \<open>23\<close> are instances of \<^verbatim>\<open>A\<close>, \<^verbatim>\<open>B\<close> and \<^verbatim>\<open>object\<close>; \<open>24\<close> is
  an instance whose class is the unsolvable value \<open>6\<close>, which has no MRO; \<open>25\<close> is an
  instance whose class is \<open>26\<close>, a \<^verbatim>\<open>Union\<close>. The graph is the chain of nodes
  \<open>0, 1, 2, \<dots>\<close>. Calling a function returns Variable \<open>60\<close> at the node of the call;
  the unsolvable value \<open>6\<close> answers every attribute itself, with Variable \<open>63\<close>.
\<close>

definition world_classes :: "ref \<Rightarrow> pyclass list" where
  "world_classes v =
     (if v \<in> {0, 1, 2, 3, 18}
        then [class_mixin_Class, abstract_PyTDClass, abstract_SimpleValue, mixin_LazyMembers]
      else if v \<in> {10, 11, 13}
        then [class_mixin_Class, abstract_InterpreterClass, abstract_SimpleValue]
      else if v \<in> {12, 14, 21, 22, 23, 24, 25} then [abstract_Instance, abstract_SimpleValue]
      else if v = 15
        then [abstract_Module, abstract_Instance, abstract_SimpleValue, mixin_LazyMembers]
      else if v = 16 then [special_builtins_SuperInstance]
      else if v = 17 then [abstract_PyTDFunction, abstract_Function, abstract_SimpleValue]
      else if v = 19 then [abstract_TypeParameterInstance]
      else if v = 5 then [abstract_Empty]
      else if v = 6 then [abstract_Unsolvable]
      else if v = 26 then [abstract_Union]
      else [])"

definition world_mro :: "ref \<Rightarrow> ref list" where
  "world_mro v =
     (if v = 0 then [0] else if v \<in> {1, 2, 3, 11, 13, 18} then [v, 0]
      else if v = 10 then [10, 11, 0] else [])"

definition world_full_name :: "ref \<Rightarrow> string" where
  "world_full_name v =
     (if v = 0 then ''builtins.object'' else if v = 1 then ''builtins.type''
      else if v = 2 then ''builtins.super'' else if v = 3 then ''builtins.module''
      else if v = 10 then ''A'' else if v = 11 then ''B'' else if v = 13 then ''S''
      else if v = 18 then ''builtins.function'' else [])"

definition world_cls :: "ref \<Rightarrow> ref" where
  "world_cls v =
     (if v \<in> {12, 21} then 10 else if v = 22 then 11 else if v = 14 then 13
      else if v = 15 then 3 else if v = 16 then 2 else if v = 17 then 18
      else if v = 23 then 0 else if v \<in> {6, 19, 24} then 6 else if v = 25 then 26 else 1)"

definition world :: "unit env" where
  "world = \<lparr>
     isinstance = (\<lambda>v c. c \<in> set (world_classes v)),
     class_name = (\<lambda>v. if v = 16 then ''SuperInstance'' else []),
     full_name = world_full_name,
     name_of = (\<lambda>v. if v = 19 then ''T'' else []),
     mro = world_mro,
     slots = (\<lambda>v. if v = 13 then Some [''x''] else None),
     maybe_missing_members = (\<lambda>v. False),
     base_cls = (\<lambda>v. v),
     method_of = (\<lambda>v. v),
     underlying = (\<lambda>v. v),
     instance_of = (\<lambda>v. 12),
     param = (\<lambda>v. 20),
     options = (\<lambda>v. []),
     super_cls = (\<lambda>v. 10),
     super_obj = (\<lambda>v. None),
     formal = (\<lambda>v. False),
     constraints = (\<lambda>v. []),
     bound = (\<lambda>v. None),
     formal_type_parameters = (\<lambda>v. []),
     object_type = 0,
     type_type = 1,
     super_type = 2,
     module_type = 3,
     none = 4,
     empty = 5,
     unsolvable = 6,
     root_node = 0,
     options_module_name = ''main'',
     f_globals = (\<lambda>x. None),
     reachable = (\<lambda>a b. a < b),
     join_cfg_nodes = (\<lambda>nodes. Suc (Max (set nodes))),
     new_unsolvable = (\<lambda>s node. to_variable s 6 node),
     join_variables = (\<lambda>s node vs.
        case NewVariable s of (r, s1) \<Rightarrow> (r, fold (\<lambda>v s'. PasteVariable s' r v (Some node)) vs s1)),
     constant_to_var = (\<lambda>s name node. (61, s)),
     merge_classes = (\<lambda>s vs. 0),
     call_function = (\<lambda>s node f args. ((node, 60), s)),
     get_special_attribute = (\<lambda>s obj node name valself. (if obj = 6 then Some 63 else None, s)),
     contains = (\<lambda>s c name. members s c name \<noteq> None),
     equivalent_to = (\<lambda>b c. data b = c),
     property_get = (\<lambda>s v callself is_class. (v, s)),
     property_call = (\<lambda>s v node. ((node, 62), s)),
     load_lazy_attribute = (\<lambda>s obj name subst. s),
     convert_as_instance_attribute = (\<lambda>s base name obj. (None, s)),
     get_instance_type_parameter = (\<lambda>s obj name. (50, s)),
     instantiate = (\<lambda>s v node. to_variable s v node),
     get_module = (\<lambda>s obj name. obj),
     get_submodule = (\<lambda>s obj node name. (None, s)),
     set_class = (\<lambda>s obj node var. (node, s)),
     update_official_name = (\<lambda>s v name. ext s),
     set_function_defaults = (\<lambda>s obj node var. ext s),
     get_annotations_dict = (\<lambda>s base. None),
     get_type = (\<lambda>s annots node name. None),
     get_type_parameters = (\<lambda>s typ. []),
     get_type_parameter_substitutions = (\<lambda>s v ps. []),
     sub_one_annotation = (\<lambda>s node typ substs. (typ, s)),
     init_annotation = (\<lambda>s node name typ. to_variable s typ node) \<rparr>"

text \<open>States: \<open>heap\<close> has no members and no Bindings; \<open>with_member s obj name v bs\<close>
  stores Variable \<open>v\<close>, holding the Bindings \<open>bs\<close>, under \<open>name\<close> in the members of
  \<open>obj\<close>; \<open>with_variable s v bs\<close> gives Variable \<open>v\<close> the Bindings \<open>bs\<close>.\<close>

definition heap :: "unit state" where
  "heap = \<lparr> members = (\<lambda>obj name. None), cls_of = world_cls, variables = (\<lambda>v. []),
            next_var = 100, errorlog = [], ext = () \<rparr>"

definition with_variable :: "'x state \<Rightarrow> var \<Rightarrow> binding list \<Rightarrow> 'x state" where
  "with_variable s v bs = s\<lparr>variables := (variables s)(v := bs)\<rparr>"

definition with_member :: "'x state \<Rightarrow> ref \<Rightarrow> name \<Rightarrow> var \<Rightarrow> binding list \<Rightarrow> 'x state" where
  "with_member s obj name v bs =
     s\<lparr>members := (members s)(obj := (members s obj)(name \<mapsto> v)),
       variables := (variables s)(v := bs)\<rparr>"

text \<open>\<open>stored obj\<close>: the members of \<open>obj\<close> hold Variable \<open>30\<close> under \<^verbatim>\<open>x\<close>, with one
  Binding, of value \<open>21\<close> at node \<open>0\<close>; Variable \<open>70\<close> holds value \<open>22\<close>.\<close>

definition stored :: "ref \<Rightarrow> unit state" where
  "stored obj =
     with_variable (with_member heap obj ''x'' 30 [\<lparr>data = 21, origins = [0]\<rparr>])
       70 [\<lparr>data = 22, origins = [0]\<rparr>]"

text \<open>\<open>found_values\<close>: the values in the Variable that a read returned;
  \<open>looked_up_values\<close>: the same for \<^verbatim>\<open>_lookup_from_mro\<close>.\<close>

definition found_values :: "'x attr_result \<Rightarrow> ref list" where
  "found_values r = (case r of Done ((node, Some v), s) \<Rightarrow> map data (variables s v) | _ \<Rightarrow> [])"

definition looked_up_values :: "(var \<times> 'x state) outcome \<Rightarrow> ref list" where
  "looked_up_values r = (case r of Done (v, s) \<Rightarrow> map data (variables s v) | _ \<Rightarrow> [])"

text \<open>\<open>returned\<close>: the node and the Variable that a read returned, \<open>None\<close> when it
  raised or did not return.\<close>

definition returned :: "'x attr_result \<Rightarrow> (node \<times> var option) option" where
  "returned r = (case r of Done ((node, v), s) \<Rightarrow> Some (node, v) | _ \<Rightarrow> None)"

text \<open>\<open>inherited n\<close>: class \<^verbatim>\<open>A\<close> stores Variable \<open>30\<close> under \<^verbatim>\<open>x\<close>, with value \<open>21\<close> bound at
  node \<open>n\<close>, and its base \<^verbatim>\<open>B\<close> stores Variable \<open>31\<close> under \<^verbatim>\<open>x\<close>, with value \<open>22\<close> bound at
  node \<open>0\<close>. \<open>holding bs\<close>: the type parameter \<^verbatim>\<open>T\<close> holds the Bindings \<open>bs\<close>, and Variable
  \<open>63\<close> is what the unsolvable value answers. \<open>unreachable_alternative\<close>: \<^verbatim>\<open>T\<close> holds the
  instance \<open>21\<close>, bound at node \<open>3\<close>, and \<open>21\<close> stores the value \<open>22\<close> under \<^verbatim>\<open>x\<close>
  (Variable \<open>35\<close>). \<open>hooked\<close>: class \<^verbatim>\<open>A\<close> defines
  \<^verbatim>\<open>__getattribute__\<close> (Variable \<open>32\<close>), its instance \<open>12\<close> stores \<^verbatim>\<open>__len__\<close> (Variable
  \<open>33\<close>) and \<^verbatim>\<open>size\<close> (Variable \<open>34\<close>), and the hook returns Variable \<open>60\<close>.\<close>

definition inherited :: "node \<Rightarrow> unit state" where
  "inherited n =
     with_member (with_member heap 10 ''x'' 30 [\<lparr>data = 21, origins = [n]\<rparr>])
       11 ''x'' 31 [\<lparr>data = 22, origins = [0]\<rparr>]"

definition holding :: "binding list \<Rightarrow> unit state" where
  "holding bs = with_variable (with_variable heap 63 [\<lparr>data = 6, origins = [0]\<rparr>]) 50 bs"

definition unreachable_alternative :: "unit state" where
  "unreachable_alternative =
     with_member (holding [\<lparr>data = 21, origins = [3]\<rparr>]) 21 ''x'' 35 [\<lparr>data = 22, origins = [0]\<rparr>]"

definition hooked :: "unit state" where
  "hooked =
     with_variable
       (with_member
          (with_member (with_member heap 10 ''__getattribute__'' 32 [\<lparr>data = 17, origins = [0]\<rparr>])
             12 ''__len__'' 33 [\<lparr>data = 21, origins = [0]\<rparr>])
          12 ''size'' 34 [\<lparr>data = 22, origins = [0]\<rparr>])
       60 [\<lparr>data = 23, origins = [0]\<rparr>]"

section \<open>Properties\<close>

subsection \<open>Writability\<close>

lemma and_then_Done [simp]: "and_then (Done x) f = f x"
  by (simp add: and_then_def)

lemmas world_simps = world_def world_classes_def world_mro_def world_full_name_def world_cls_def
  heap_def with_member_def with_variable_def stored_def inherited_def holding_def hooked_def
  unreachable_alternative_def

lemma check_writable_mro_rejects:
  assumes "\<forall>baseclass \<in> set bases. full_name E baseclass \<noteq> ''builtins.object'' \<longrightarrow>
             \<not> contains E s baseclass ''__setattr__'' \<and> \<not> contains E s baseclass name \<and>
             (\<exists>sl. slots E baseclass = Some sl \<and> name \<notin> set sl)"
  shows "\<not> check_writable_mro E s name bases"
  using assms by (induction bases) auto

text \<open>
  Claim C3. Take an object whose class has a non-empty MRO in which no class other than
  \<^verbatim>\<open>builtins.object\<close> defines \<^verbatim>\<open>__setattr__\<close>, declares the written name, has no slot
  restriction, or lists the name among its slots. Then \<^verbatim>\<open>set_attribute\<close> returns the
  node it was given, the error log gains the not-writable report for the object and the
  name, and the member mappings and the Variables are what they were.
\<close>

theorem set_attribute_not_writable:
  assumes "mro E (cls_of s obj) \<noteq> []"
    and "\<forall>baseclass \<in> set (mro E (cls_of s obj)). full_name E baseclass \<noteq> ''builtins.object'' \<longrightarrow>
           \<not> contains E s baseclass ''__setattr__'' \<and> \<not> contains E s baseclass name \<and>
           (\<exists>sl. slots E baseclass = Some sl \<and> name \<notin> set sl)"
  shows "\<exists>s'. set_attribute E (Suc fuel) s node obj name value = Done (node, s') \<and>
              errorlog s' = errorlog s @ [(obj, name)] \<and> members s' = members s \<and>
              variables s' = variables s"
  using assms(1) check_writable_mro_rejects [OF assms(2)]
  by (simp add: set_attribute_body_def check_writable_def not_writable_def)

text \<open>An instance of the class \<^verbatim>\<open>S\<close> with \<^verbatim>\<open>__slots__ = ("x",)\<close>, written at \<^verbatim>\<open>y\<close>.\<close>

theorem set_attribute_not_writable_witness:
  "\<exists>s'. set_attribute world (Suc 0) heap 1 14 ''y'' 70 = Done (1, s') \<and>
        errorlog s' = [(14, ''y'')] \<and> members s' = members heap \<and> variables s' = variables heap"
proof -
  have nonempty: "mro world (cls_of heap 14) \<noteq> []"
    by (simp add: world_simps)
  have none: "\<forall>baseclass \<in> set (mro world (cls_of heap 14)).
      full_name world baseclass \<noteq> ''builtins.object'' \<longrightarrow>
      \<not> contains world heap baseclass ''__setattr__'' \<and> \<not> contains world heap baseclass ''y'' \<and>
      (\<exists>sl. slots world baseclass = Some sl \<and> ''y'' \<notin> set sl)"
    by (simp add: world_simps)
  from set_attribute_not_writable [OF nonempty none, of 0 1 70]
  show ?thesis by (simp add: heap_def)
qed

subsection \<open>What the write path raises\<close>

lemma check_writable_True:
  "fst (check_writable E s obj name) \<Longrightarrow> check_writable E s obj name = (True, s)"
  by (auto simp: check_writable_def split: if_splits)

lemma check_writable_False:
  "\<not> fst (check_writable E s obj name) \<Longrightarrow>
   check_writable E s obj name = (False, not_writable s obj name)"
  by (auto simp: check_writable_def split: if_splits)

lemma dispatch_unhandled:
  "\<not> isinstance_any E obj handled_by_set_attribute \<Longrightarrow>
   set_attribute_dispatch E self s node obj name value = Raised (NotImplementedError (class_name E obj))"
  by (simp add: set_attribute_dispatch_def isinstance_any_def handled_by_set_attribute_def Let_def)

lemma set_member_raises:
  "isinstance E obj abstract_SimpleValue \<Longrightarrow> set_member E s node obj name var \<noteq> Raised e"
  by (auto simp: set_member_def Let_def maybe_load_as_instance_attribute_def and_then_def
      split: option.splits prod.splits outcome.splits if_splits)

lemma set_attribute_options_raises:
  assumes "\<And>s node obj name value. self s node obj name value = Raised e \<Longrightarrow> P e"
  shows "set_attribute_options self s node opts name value = Raised e \<Longrightarrow> P e"
proof (induction opts arbitrary: s node)
  case Nil
  then show ?case by simp
next
  case (Cons opt rest)
  then show ?case using assms
    by (auto simp: and_then_def split: outcome.splits prod.splits)
qed

lemma set_attribute_values_raises:
  assumes "\<And>s node obj name value. self s node obj name value = Raised e \<Longrightarrow> P e"
  shows "set_attribute_values self s node vs name value nodes = Raised e \<Longrightarrow> P e"
proof (induction vs arbitrary: s nodes)
  case Nil
  then show ?case by simp
next
  case (Cons v rest)
  then show ?case using assms
    by (auto simp: and_then_def split: outcome.splits prod.splits)
qed

lemma dispatch_raises:
  assumes self: "\<And>s node obj name value. self s node obj name value = Raised e \<Longrightarrow> unhandled_variant E e"
    and r: "set_attribute_dispatch E self s node obj name value = Raised e"
  shows "unhandled_variant E e"
proof -
  have opts: "\<And>s node opts name value.
      set_attribute_options self s node opts name value = Raised e \<Longrightarrow> unhandled_variant E e"
    by (rule set_attribute_options_raises [where P = "unhandled_variant E"]) (rule self)
  have vals: "\<And>s node vs name value nodes.
      set_attribute_values self s node vs name value nodes = Raised e \<Longrightarrow> unhandled_variant E e"
    by (rule set_attribute_values_raises [where P = "unhandled_variant E"]) (rule self)
  have last: "\<not> isinstance_any E obj handled_by_set_attribute \<Longrightarrow>
      unhandled_variant E (NotImplementedError (class_name E obj))"
    by (auto simp: unhandled_variant_def)
  from r show ?thesis
    unfolding set_attribute_dispatch_def Let_def
    by (auto simp: and_then_def set_member_raises isinstance_any_def handled_by_set_attribute_def
        split: if_splits option.splits prod.splits outcome.splits
        dest: self opts vals intro: last)
qed

lemma set_attribute_raises:
  "set_attribute E fuel s node obj name value = Raised e \<Longrightarrow> unhandled_variant E e"
proof (induction fuel arbitrary: s node obj name "value")
  case 0
  then show ?case by simp
next
  case (Suc fuel)
  from Suc.prems show ?case
    by (auto simp: set_attribute_body_def split: prod.splits bool.splits
        intro: dispatch_raises [where self = "set_attribute E fuel", OF Suc.IH])
qed

subsection \<open>What a write stores\<close>

lemma fold_ext_frame:
  "members (fold (\<lambda>v s'. s'\<lparr>ext := f s' v\<rparr>) vs s) = members s \<and>
   variables (fold (\<lambda>v s'. s'\<lparr>ext := f s' v\<rparr>) vs s) = variables s \<and>
   cls_of (fold (\<lambda>v s'. s'\<lparr>ext := f s' v\<rparr>) vs s) = cls_of s \<and>
   errorlog (fold (\<lambda>v s'. s'\<lparr>ext := f s' v\<rparr>) vs s) = errorlog s"
  by (induction vs arbitrary: s) simp_all

lemma official_names_frame:
  "members (official_names E s obj name value) = members s \<and>
   variables (official_names E s obj name value) = variables s \<and>
   cls_of (official_names E s obj name value) = cls_of s \<and>
   errorlog (official_names E s obj name value) = errorlog s"
  by (simp add: official_names_def fold_ext_frame)

subsection \<open>Objects whose class has no MRO\<close>





subsection \<open>Writes to the members\<close>

text \<open>
  Claim C10. For a function value (\<^verbatim>\<open>PyTDFunction\<close> or \<^verbatim>\<open>SignedFunction\<close>: a
  \<^verbatim>\<open>SimpleValue\<close> that is neither empty, a module, a method wrapper nor lazily loaded)
  a write of \<^verbatim>\<open>__defaults__\<close> returns the node it was given and leaves every member
  mapping and every Variable as it was; when the function passes the writability
  check, as a function does, the value is handed to \<^verbatim>\<open>set_function_defaults\<close>.
\<close>

theorem set_attribute_function_defaults:
  assumes "isinstance E obj abstract_PyTDFunction \<or> isinstance E obj abstract_SignedFunction"
    and "isinstance E obj abstract_SimpleValue"
    and "\<not> isinstance_any E obj [abstract_Empty, abstract_Module, abstract_StaticMethod,
           abstract_ClassMethod, mixin_LazyMembers]"
  shows "\<exists>s'. set_attribute E (Suc fuel) s node obj ''__defaults__'' value = Done (node, s') \<and>
           members s' = members s \<and> variables s' = variables s \<and>
           (fst (check_writable E s obj ''__defaults__'') \<longrightarrow>
              ext s' = set_function_defaults E (official_names E s obj ''__defaults__'' value)
                         obj node value)"
proof (cases "fst (check_writable E s obj ''__defaults__'')")
  case True
  with assms check_writable_True [OF True] show ?thesis
    by (auto simp: set_attribute_body_def set_attribute_dispatch_def set_member_def lazy_loaded_def
        isinstance_any_def Let_def official_names_frame)
next
  case False
  with check_writable_False [OF False] show ?thesis
    by (simp add: set_attribute_body_def not_writable_def)
qed

text \<open>The function of the example world.\<close>

theorem set_attribute_function_defaults_witness:
  "\<exists>s'. set_attribute world (Suc 0) heap 1 17 ''__defaults__'' 70 = Done (1, s') \<and>
        ext s' = set_function_defaults world heap 17 1 70 \<and>
        members s' = members heap \<and> variables s' = variables heap"
proof -
  have w: "fst (check_writable world heap 17 ''__defaults__'')"
    by (simp add: check_writable_def world_simps)
  have f: "isinstance world 17 abstract_PyTDFunction \<or> isinstance world 17 abstract_SignedFunction"
    by (simp add: world_simps)
  have v: "isinstance world 17 abstract_SimpleValue"
    by (simp add: world_simps)
  have n: "\<not> isinstance_any world 17 [abstract_Empty, abstract_Module, abstract_StaticMethod,
           abstract_ClassMethod, mixin_LazyMembers]"
    by (simp add: isinstance_any_def world_simps)
  have o: "official_names world heap 17 ''__defaults__'' 70 = heap"
    by (simp add: official_names_def world_simps)
  from set_attribute_function_defaults [OF f v n, of 0 heap 1 70] w o show ?thesis
    by auto
qed

lemma Bindings_PasteVariable:
  "Bindings E (PasteVariable s v other at) v node strict =
     Bindings E s v node strict @ filter (\<lambda>b. IsVisible E b node) (map (pasted at) (variables s other))"
  by (simp add: Bindings_def PasteVariable_def)

lemma pasted_visible:
  "n = node \<or> reachable E node n \<Longrightarrow> IsVisible E (pasted (Some node) b) n"
  by (auto simp: IsVisible_def pasted_def)

text \<open>
  Claim C4, amended. Take a target that passes the writability check and is neither
  empty, a module nor a method wrapper: either a \<^verbatim>\<open>SimpleValue\<close>, written at a name other
  than \<^verbatim>\<open>__class__\<close> (and other than \<^verbatim>\<open>__defaults__\<close> on a function value), or an
  \<^verbatim>\<open>Unknown\<close>. If, after the lazy load that starts the write to a \<^verbatim>\<open>SimpleValue\<close>, the
  members hold a Variable under the name, then the write pastes the
  Bindings of the new value into that Variable: the member mapping is unchanged, the
  Variable keeps its earlier Bindings, in place, followed by the new ones, no other
  Variable changes, and at every node reachable from the node of the write the
  visible Bindings are the ones visible before followed by all the new ones.
\<close>

theorem set_attribute_merges:
  assumes "fst (check_writable E s obj name)"
    and "\<not> isinstance_any E obj [abstract_Empty, abstract_Module, abstract_StaticMethod,
           abstract_ClassMethod]"
    and "isinstance E obj abstract_SimpleValue \<and> name \<noteq> ''__class__'' \<and>
           (name = ''__defaults__'' \<longrightarrow>
              \<not> isinstance_any E obj [abstract_PyTDFunction, abstract_SignedFunction]) \<and>
           s1 = lazy_loaded E (official_names E s obj name value) obj name
         \<or> isinstance E obj abstract_Unknown \<and>
           \<not> isinstance_any E obj [abstract_SimpleValue, abstract_BoundFunction,
                abstract_Unsolvable] \<and>
           s1 = official_names E s obj name value"
    and "members s1 obj name = Some variable"
  shows "\<exists>s'. set_attribute E (Suc fuel) s node obj name value = Done (node, s') \<and>
           members s' = members s1 \<and>
           variables s' variable =
             variables s1 variable @ map (pasted (Some node)) (variables s1 value) \<and>
           (\<forall>v. v \<noteq> variable \<longrightarrow> variables s' v = variables s1 v) \<and>
           (\<forall>n strict. n = node \<or> reachable E node n \<longrightarrow>
              Bindings E s' variable n strict =
                Bindings E s1 variable n strict @ map (pasted (Some node)) (variables s1 value))"
proof -
  have writable: "check_writable E s obj name = (True, s)"
    by (rule check_writable_True [OF assms(1)])
  have vis: "\<And>n. n = node \<or> reachable E node n \<Longrightarrow>
      filter (\<lambda>b. IsVisible E b n) (map (pasted (Some node)) (variables s1 value)) =
        map (pasted (Some node)) (variables s1 value)"
    by (simp add: pasted_visible)
  have "set_attribute_dispatch E (set_attribute E fuel) s node obj name value =
          Done (node, PasteVariable s1 variable value (Some node))"
    using assms(3)
  proof
    assume "isinstance E obj abstract_SimpleValue \<and> name \<noteq> ''__class__'' \<and>
      (name = ''__defaults__'' \<longrightarrow>
         \<not> isinstance_any E obj [abstract_PyTDFunction, abstract_SignedFunction]) \<and>
      s1 = lazy_loaded E (official_names E s obj name value) obj name"
    with assms(2,4) show ?thesis
      by (auto simp: set_attribute_dispatch_def set_member_def isinstance_any_def Let_def)
  next
    assume "isinstance E obj abstract_Unknown \<and>
      \<not> isinstance_any E obj [abstract_SimpleValue, abstract_BoundFunction, abstract_Unsolvable] \<and>
      s1 = official_names E s obj name value"
    with assms(2,4) show ?thesis
      by (simp add: set_attribute_dispatch_def isinstance_any_def Let_def)
  qed
  with writable have "set_attribute E (Suc fuel) s node obj name value =
          Done (node, PasteVariable s1 variable value (Some node))"
    by (simp add: set_attribute_body_def)
  moreover have "members (PasteVariable s1 variable value (Some node)) = members s1"
    by (simp add: PasteVariable_def)
  moreover have "variables (PasteVariable s1 variable value (Some node)) variable =
      variables s1 variable @ map (pasted (Some node)) (variables s1 value)"
    by (simp add: PasteVariable_def)
  moreover have "\<forall>v. v \<noteq> variable \<longrightarrow>
      variables (PasteVariable s1 variable value (Some node)) v = variables s1 v"
    by (simp add: PasteVariable_def)
  moreover have "\<forall>n strict. n = node \<or> reachable E node n \<longrightarrow>
      Bindings E (PasteVariable s1 variable value (Some node)) variable n strict =
        Bindings E s1 variable n strict @ map (pasted (Some node)) (variables s1 value)"
    by (simp add: Bindings_PasteVariable vis)
  ultimately show ?thesis by blast
qed

text \<open>A second write to \<^verbatim>\<open>x\<close> of the instance of \<^verbatim>\<open>A\<close>, at node \<open>1\<close>: at node \<open>2\<close> both
  values are visible.\<close>

theorem set_attribute_merges_witness:
  "\<exists>s'. set_attribute world (Suc 0) (stored 12) 1 12 ''x'' 70 = Done (1, s') \<and>
        members s' = members (stored 12) \<and>
        variables s' 30 = [\<lparr>data = 21, origins = [0]\<rparr>, \<lparr>data = 22, origins = [1]\<rparr>] \<and>
        Bindings world s' 30 2 True = [\<lparr>data = 21, origins = [0]\<rparr>, \<lparr>data = 22, origins = [1]\<rparr>]"
proof -
  have w: "fst (check_writable world (stored 12) 12 ''x'')"
    by (simp add: check_writable_def world_simps)
  have n: "\<not> isinstance_any world 12 [abstract_Empty, abstract_Module, abstract_StaticMethod,
           abstract_ClassMethod]"
    by (simp add: isinstance_any_def world_simps)
  have l: "stored 12 = lazy_loaded world (official_names world (stored 12) 12 ''x'' 70) 12 ''x''"
    by (simp add: lazy_loaded_def official_names_def world_simps)
  have p: "isinstance world 12 abstract_SimpleValue \<and> ''x'' \<noteq> ''__class__'' \<and>
           (''x'' = ''__defaults__'' \<longrightarrow>
              \<not> isinstance_any world 12 [abstract_PyTDFunction, abstract_SignedFunction]) \<and>
           stored 12 = lazy_loaded world (official_names world (stored 12) 12 ''x'' 70) 12 ''x''
         \<or> isinstance world 12 abstract_Unknown \<and>
           \<not> isinstance_any world 12 [abstract_SimpleValue, abstract_BoundFunction,
                abstract_Unsolvable] \<and>
           stored 12 = official_names world (stored 12) 12 ''x'' 70"
    using l by (simp add: world_simps)
  have m: "members (stored 12) 12 ''x'' = Some 30"
    by (simp add: world_simps)
  from set_attribute_merges [OF w n p m, of 0 1] show ?thesis
    by (auto simp: world_simps pasted_def Bindings_def IsVisible_def)
qed

text \<open>Claim C4 as stated fails for a module: it has a member mapping, the mapping
  holds a Variable under \<^verbatim>\<open>x\<close>, and the write returns without touching it.\<close>

theorem set_attribute_module_counterexample:
  "members (stored 15) 15 ''x'' = Some 30 \<and>
   map data (variables (stored 15) 70) = [22] \<and>
   set_attribute world (Suc 0) (stored 15) 1 15 ''x'' 70 = Done (1, stored 15) \<and>
   map data (variables (stored 15) 30) = [21]"
  by (simp add: set_attribute_body_def set_attribute_dispatch_def check_writable_def
      official_names_def world_simps)

subsection \<open>Filtering a fully visible Variable\<close>

text \<open>
  Claim C8, amended. If a Variable has at least one Binding, all its Bindings are
  visible at the node and none holds a \<^verbatim>\<open>TypeParameterInstance\<close>, then \<^verbatim>\<open>_filter_var\<close>
  returns that very Variable, creates none (the state is the one it was given) and
  needs no fuel; filtering the result again returns it again.
\<close>

theorem filter_var_identity:
  assumes "variables s var \<noteq> []"
    and "\<forall>b \<in> set (variables s var).
           IsVisible E b node \<and> \<not> isinstance E (data b) abstract_TypeParameterInstance"
  shows "filter_var E fuel s node var = Done (Some var, s) \<and>
         and_then (filter_var E fuel s node var)
           (\<lambda>(r, s'). case r of None \<Rightarrow> Done (None, s') | Some v \<Rightarrow> filter_var E fuel' s' node v) =
           Done (Some var, s)"
proof -
  have all: "Bindings E s var node False = variables s var"
    using assms(2) by (simp add: Bindings_def)
  have "filter_var E k s node var = Done (Some var, s)" for k
    using assms by (simp add: filter_var_def all Let_def)
  then show ?thesis by simp
qed

text \<open>The Variable stored under \<^verbatim>\<open>x\<close>, seen from node \<open>1\<close>.\<close>

theorem filter_var_identity_witness:
  "filter_var world 0 (stored 12) 1 30 = Done (Some 30, stored 12)"
proof -
  have n: "variables (stored 12) 30 \<noteq> []"
    by (simp add: world_simps)
  have a: "\<forall>b \<in> set (variables (stored 12) 30).
           IsVisible world b 1 \<and> \<not> isinstance world (data b) abstract_TypeParameterInstance"
    by (simp add: world_simps IsVisible_def)
  from filter_var_identity [OF n a, of 0 0] show ?thesis by simp
qed

text \<open>Claim C8 as stated fails for a Variable without Bindings: all of them are
  visible, and the result is absent.\<close>

theorem filter_var_empty_counterexample:
  "variables heap 30 = [] \<and> filter_var world 1 heap 1 30 = Done (None, heap) \<and>
   filter_var world 1 heap 1 30 \<noteq> Done (Some 30, heap)"
  by (simp add: filter_var_def Bindings_def heap_def)

subsection \<open>Reading a class through its metaclass\<close>

text \<open>
  Claim C7, amended. Take a read of a class (a \<^verbatim>\<open>Class\<close> that is neither a function
  nor a parameterized class, that misses no members, and whose special-attribute hook
  does not answer) with a self binding that denotes the class itself. The read is
  \<^verbatim>\<open>_get_attribute\<close> with the metaclass \<^verbatim>\<open>cls.cls\<close> as the class to search, except when
  the class read is \<^verbatim>\<open>type\<close> itself: then no class is searched. So, for a class other
  than \<^verbatim>\<open>type\<close>: when the \<^verbatim>\<open>__getattribute__\<close> of the metaclass and the walk over the
  MRO of the class itself find nothing, the attribute is read from the metaclass,
  with \<^verbatim>\<open>get_attribute\<close>, and what that read finds is the result of the read of the
  class, after the two steps that end every read (declared fields, visibility
  filtering). For \<^verbatim>\<open>type\<close> itself: when the walk over its own MRO finds nothing, the
  result is absent, after those two steps, and the metaclass is not read.
\<close>

theorem get_class_attribute_metaclass:
  assumes "get_special_attribute E s0 cls node name (Some vs) = (None, s)"
    and "\<not> isinstance E cls abstract_Function"
    and "\<not> isinstance E cls abstract_ParameterizedClass"
    and "isinstance E cls class_mixin_Class"
    and "equivalent_to E vs cls"
    and "\<not> maybe_missing_members E cls"
  shows "get_attribute E (Suc fuel) s0 node cls name (Some vs) =
           get_attribute' E (get_attribute E fuel) fuel s node cls
             (if cls = type_type E then None else Some (cls_of s cls)) name (Some vs)
         \<and> (cls \<noteq> type_type E \<and>
            get_attribute_computed E (get_attribute E fuel) fuel s node (cls_of s cls) name (Some vs)
              ''__getattribute__'' = Done ((node1, None), s1) \<and>
            lookup_from_mro_and_handle_descriptors E (get_attribute E fuel) fuel s1 node1 cls name
              (Some vs) {} = Done ((node2, None), s2) \<and>
            get_attribute E fuel s2 node2 (cls_of s cls) name (Some vs) = Done ((node3, Some attr), s3)
            \<longrightarrow>
            get_attribute E (Suc fuel) s0 node cls name (Some vs) =
              get_attribute_finish E fuel s3 node3 cls name (Some vs) (Some attr))
         \<and> (cls = type_type E \<and>
            lookup_from_mro_and_handle_descriptors E (get_attribute E fuel) fuel s node cls name
              (Some vs) {} = Done ((node2', None), s2')
            \<longrightarrow>
            get_attribute E (Suc fuel) s0 node cls name (Some vs) =
              get_attribute_finish E fuel s2' node2' cls name (Some vs) None)"
proof -
  have entry: "get_attribute E (Suc fuel) s0 node cls name (Some vs) =
      get_attribute' E (get_attribute E fuel) fuel s node cls
        (if cls = type_type E then None else Some (cls_of s cls)) name (Some vs)"
    using assms(1-5)
    by (simp add: get_attribute_body_def get_class_attribute_def class_attribute_meta_def)
  have meta: "get_attribute' E (get_attribute E fuel) fuel s node cls (Some (cls_of s cls)) name
        (Some vs) = get_attribute_finish E fuel s3 node3 cls name (Some vs) (Some attr)"
    if "get_attribute_computed E (get_attribute E fuel) fuel s node (cls_of s cls) name (Some vs)
          ''__getattribute__'' = Done ((node1, None), s1)"
      and "lookup_from_mro_and_handle_descriptors E (get_attribute E fuel) fuel s1 node1 cls name
          (Some vs) {} = Done ((node2, None), s2)"
      and "get_attribute E fuel s2 node2 (cls_of s cls) name (Some vs) = Done ((node3, Some attr), s3)"
    using that assms(4,6) by (simp add: get_attribute'_def)
  have root: "get_attribute' E (get_attribute E fuel) fuel s node cls None name (Some vs) =
        get_attribute_finish E fuel s2' node2' cls name (Some vs) None"
    if "lookup_from_mro_and_handle_descriptors E (get_attribute E fuel) fuel s node cls name
          (Some vs) {} = Done ((node2', None), s2')"
    using that assms(4,6) by (simp add: get_attribute'_def)
  show ?thesis
  proof (cases "cls = type_type E")
    case True
    with entry root show ?thesis by (auto simp del: get_attribute.simps)
  next
    case False
    with entry meta show ?thesis by (auto simp del: get_attribute.simps)
  qed
qed

text \<open>With \<^verbatim>\<open>mro\<close> defined on \<^verbatim>\<open>type\<close> only: the read of \<^verbatim>\<open>A.mro\<close> returns what the read
  of the metaclass of \<^verbatim>\<open>A\<close> finds; the read of an undefined name from \<^verbatim>\<open>type\<close> itself
  returns absent, at the node it was given.\<close>

theorem get_class_attribute_metaclass_witness:
  "cls_of (with_member heap 1 ''mro'' 30 [\<lparr>data = 23, origins = [0]\<rparr>]) 10 = 1 \<and>
   found_values (get_attribute world (Suc (Suc 0))
     (with_member heap 1 ''mro'' 30 [\<lparr>data = 23, origins = [0]\<rparr>]) 0 1 ''mro''
     (Some \<lparr>data = 10, origins = [0]\<rparr>)) = [23] \<and>
   found_values (get_attribute world (Suc (Suc (Suc 0)))
     (with_member heap 1 ''mro'' 30 [\<lparr>data = 23, origins = [0]\<rparr>]) 0 10 ''mro''
     (Some \<lparr>data = 10, origins = [0]\<rparr>)) = [23] \<and>
   returned (get_attribute world (Suc (Suc 0))
     (with_member heap 1 ''mro'' 30 [\<lparr>data = 23, origins = [0]\<rparr>]) 0 1 ''nope''
     (Some \<lparr>data = 1, origins = [0]\<rparr>)) = Some (0, None)"
proof -
  let ?S = "with_member heap 1 ''mro'' 30 [\<lparr>data = 23, origins = [0]\<rparr>]"
  let ?vs = "\<lparr>data = 10, origins = [0]\<rparr>"
  let ?vt = "\<lparr>data = 1, origins = [0]\<rparr>"
  let ?self = "get_attribute world (Suc (Suc 0))"
  have a: "get_special_attribute world ?S 10 0 ''mro'' (Some ?vs) = (None, ?S)"
    "get_special_attribute world ?S 1 0 ''nope'' (Some ?vt) = (None, ?S)"
    by (simp_all add: world_def)
  have b: "\<not> isinstance world 10 abstract_Function" "\<not> isinstance world 1 abstract_Function"
    by (simp_all add: world_simps)
  have c: "\<not> isinstance world 10 abstract_ParameterizedClass"
    "\<not> isinstance world 1 abstract_ParameterizedClass"
    by (simp_all add: world_simps)
  have d: "isinstance world 10 class_mixin_Class" "isinstance world 1 class_mixin_Class"
    by (simp_all add: world_simps)
  have e: "equivalent_to world \<lparr>data = c, origins = [0]\<rparr> c" for c
    by (simp add: world_def)
  have f: "\<not> maybe_missing_members world c" for c
    by (simp add: world_def)
  have t: "type_type world = 1" "cls_of ?S 10 = 1" "(10::nat) \<noteq> 1"
    by (simp_all add: world_simps)
  have "\<exists>node1 s1 node2 s2 node3 attr s3.
      get_attribute_computed world ?self (Suc (Suc 0)) ?S 0 (cls_of ?S 10) ''mro'' (Some ?vs)
        ''__getattribute__'' = Done ((node1, None), s1) \<and>
      lookup_from_mro_and_handle_descriptors world ?self (Suc (Suc 0)) s1 node1 10 ''mro''
        (Some ?vs) {} = Done ((node2, None), s2) \<and>
      get_attribute world (Suc (Suc 0)) s2 node2 (cls_of ?S 10) ''mro'' (Some ?vs) =
        Done ((node3, Some attr), s3) \<and>
      found_values (get_attribute_finish world (Suc (Suc 0)) s3 node3 10 ''mro'' (Some ?vs)
        (Some attr)) = [23]"
    by (simp add: found_values_def world_simps
      get_attribute_body_def get_class_attribute_def get_attribute'_def get_attribute_computed_def
      class_attribute_meta_def
      isinstance_any_def AMBIGUOUS_OR_EMPTY_def computable_def lookup_from_mro_def NewVariable_def
      lookup_base_def get_member_def Bindings_def IsVisible_def filter_var_def
      lookup_from_mro_and_handle_descriptors_def get_attribute_finish_def
      Binding_AssignToNewVariable_def AddBinding_def pasted_def Let_def)
  then obtain node1 s1 node2 s2 node3 attr s3 where
    h1: "get_attribute_computed world ?self (Suc (Suc 0)) ?S 0 (cls_of ?S 10) ''mro'' (Some ?vs)
        ''__getattribute__'' = Done ((node1, None), s1)"
    and h2: "lookup_from_mro_and_handle_descriptors world ?self (Suc (Suc 0)) s1 node1 10 ''mro''
        (Some ?vs) {} = Done ((node2, None), s2)"
    and h3: "get_attribute world (Suc (Suc 0)) s2 node2 (cls_of ?S 10) ''mro'' (Some ?vs) =
        Done ((node3, Some attr), s3)"
    and h4: "found_values (get_attribute_finish world (Suc (Suc 0)) s3 node3 10 ''mro'' (Some ?vs)
        (Some attr)) = [23]"
    by blast
  have meta: "found_values (get_attribute world (Suc (Suc 0)) ?S 0 1 ''mro'' (Some ?vs)) = [23]"
    by (simp add: found_values_def world_simps
      get_attribute_body_def get_class_attribute_def get_attribute'_def get_attribute_computed_def
      class_attribute_meta_def
      isinstance_any_def AMBIGUOUS_OR_EMPTY_def computable_def lookup_from_mro_def NewVariable_def
      lookup_base_def get_member_def Bindings_def IsVisible_def filter_var_def
      lookup_from_mro_and_handle_descriptors_def get_attribute_finish_def
      Binding_AssignToNewVariable_def AddBinding_def pasted_def Let_def)
  have "\<exists>node2 s2.
      lookup_from_mro_and_handle_descriptors world (get_attribute world (Suc 0)) (Suc 0) ?S 0 1
        ''nope'' (Some ?vt) {} = Done ((node2, None), s2) \<and>
      returned (get_attribute_finish world (Suc 0) s2 node2 1 ''nope'' (Some ?vt) None) =
        Some (0, None)"
    by (simp add: returned_def world_simps
      isinstance_any_def lookup_from_mro_def NewVariable_def
      lookup_base_def get_member_def Bindings_def IsVisible_def filter_var_def
      lookup_from_mro_and_handle_descriptors_def get_attribute_finish_def
      Binding_AssignToNewVariable_def AddBinding_def pasted_def Let_def)
  then obtain node2' s2' where
    r1: "lookup_from_mro_and_handle_descriptors world (get_attribute world (Suc 0)) (Suc 0) ?S 0 1
        ''nope'' (Some ?vt) {} = Done ((node2', None), s2')"
    and r2: "returned (get_attribute_finish world (Suc 0) s2' node2' 1 ''nope'' (Some ?vt) None) =
        Some (0, None)"
    by blast
  note A = get_class_attribute_metaclass [of world ?S 10 0 "''mro''" ?vs ?S "Suc (Suc 0)"
      node1 s1 node2 s2 node3 attr s3, OF a(1) b(1) c(1) d(1) e f]
  note B = get_class_attribute_metaclass [of world ?S 1 0 "''nope''" ?vt ?S "Suc 0"
      _ _ _ _ _ _ _ node2' s2', OF a(2) b(2) c(2) d(2) e f]
  have "get_attribute world (Suc (Suc (Suc 0))) ?S 0 10 ''mro'' (Some ?vs) =
      get_attribute_finish world (Suc (Suc 0)) s3 node3 10 ''mro'' (Some ?vs) (Some attr)"
    using A [THEN conjunct2, THEN conjunct1] h1 h2 h3 t
    by (simp del: get_attribute.simps)
  with h4 have x:
    "found_values (get_attribute world (Suc (Suc (Suc 0))) ?S 0 10 ''mro'' (Some ?vs)) = [23]"
    by (simp del: get_attribute.simps)
  have "get_attribute world (Suc (Suc 0)) ?S 0 1 ''nope'' (Some ?vt) =
      get_attribute_finish world (Suc 0) s2' node2' 1 ''nope'' (Some ?vt) None"
    using B [THEN conjunct2, THEN conjunct2] r1 t
    by (simp del: get_attribute.simps)
  with r2 have y:
    "returned (get_attribute world (Suc (Suc 0)) ?S 0 1 ''nope'' (Some ?vt)) = Some (0, None)"
    by (simp del: get_attribute.simps)
  from t meta x y show ?thesis by (simp del: get_attribute.simps)
qed

text \<open>Claim C7 as stated fails: the metaclass of \<^verbatim>\<open>A\<close> is \<^verbatim>\<open>type\<close>, and it is
  searched. With \<^verbatim>\<open>mro\<close> defined on \<^verbatim>\<open>type\<close> only, the read of \<^verbatim>\<open>A.mro\<close> finds it.\<close>

theorem get_class_attribute_metaclass_counterexample:
  "cls_of (with_member heap 1 ''mro'' 30 [\<lparr>data = 23, origins = [0]\<rparr>]) 10 = type_type world \<and>
   equivalent_to world \<lparr>data = 10, origins = [0]\<rparr> 10 \<and>
   class_attribute_meta world (with_member heap 1 ''mro'' 30 [\<lparr>data = 23, origins = [0]\<rparr>]) 10
     (Some \<lparr>data = 10, origins = [0]\<rparr>) = Some (type_type world) \<and>
   found_values (get_attribute world (Suc (Suc (Suc 0)))
     (with_member heap 1 ''mro'' 30 [\<lparr>data = 23, origins = [0]\<rparr>]) 0 10 ''mro''
     (Some \<lparr>data = 10, origins = [0]\<rparr>)) = [23]"
  by (simp add: class_attribute_meta_def found_values_def world_simps
      get_attribute_body_def get_class_attribute_def get_attribute'_def get_attribute_computed_def
      isinstance_any_def AMBIGUOUS_OR_EMPTY_def computable_def lookup_from_mro_def NewVariable_def
      lookup_base_def get_member_def Bindings_def IsVisible_def filter_var_def
      lookup_from_mro_and_handle_descriptors_def get_attribute_finish_def
      Binding_AssignToNewVariable_def AddBinding_def pasted_def Let_def)

subsection \<open>The walk over the MRO\<close>

lemma lookup_mro_passed_over:
  "passed_over E self fuel s node name valself skip pre = Some (node1, s1) \<Longrightarrow>
   lookup_mro E self fuel s node cls name valself skip ret (pre @ rest) =
     lookup_mro E self fuel s1 node1 cls name valself skip ret rest"
proof (induction pre arbitrary: s node)
  case Nil
  then show ?case by simp
next
  case (Cons base pre)
  show ?case
  proof (cases "base \<in> skip")
    case True
    with Cons show ?thesis by simp
  next
    case False
    with Cons.prems obtain node' var s' where
      base: "lookup_base E self fuel s node base name valself = Done ((node', var), s')"
      by (auto split: outcome.splits)
    with Cons.prems False have
      none: "var = None \<or> (\<exists>v. var = Some v \<and> variables s' v = [])"
      and rest: "passed_over E self fuel s' node' name valself skip pre = Some (node1, s1)"
      by (auto split: option.splits if_splits)
    from none base False Cons.IH [OF rest] show ?thesis by auto
  qed
qed

text \<open>
  Claim C2, amended. Let the MRO of a class be \<open>pre @ base # post\<close>, where the walk
  passes over every class of \<open>pre\<close> (it is in the skip set, or its lookup returns no
  Variable, or a Variable without Bindings), and \<open>base\<close> is outside the skip set and
  its lookup returns a Variable with a Binding. Then the result is built from the
  Bindings found at \<open>base\<close> alone, whatever \<open>post\<close> is: no later class contributes,
  also when binding to self leaves no value.
\<close>

theorem lookup_from_mro_first_definer:
  assumes "\<not> isinstance_any E cls [abstract_Unknown, abstract_Unsolvable]"
    and "mro E cls = pre @ base # post"
    and "NewVariable s = (ret, s0)"
    and "passed_over E self fuel s0 node name valself skip pre = Some (node1, s1)"
    and "base \<notin> skip"
    and "lookup_base E self fuel s1 node1 base name valself = Done ((node2, Some v), s2)"
    and "variables s2 v \<noteq> []"
  shows "lookup_from_mro E self fuel s node cls name valself skip =
           Done (ret, snd (lookup_bind E s2 node2 cls base valself ret (variables s2 v)))"
  using assms(1,3,5-7)
  by (simp add: lookup_from_mro_def assms(2) lookup_mro_passed_over [OF assms(4)])

text \<open>\<^verbatim>\<open>A\<close> and its base \<^verbatim>\<open>B\<close> both define \<^verbatim>\<open>x\<close>, visibly: the value of \<^verbatim>\<open>A\<close> is found.\<close>

theorem lookup_from_mro_first_definer_witness:
  "looked_up_values (lookup_from_mro world (get_attribute world 0) (Suc 0) (inherited 0) 1 10 ''x''
     None {}) = [21]"
proof -
  let ?s0 = "snd (NewVariable (inherited 0))"
  have a: "\<not> isinstance_any world 10 [abstract_Unknown, abstract_Unsolvable]"
    by (simp add: isinstance_any_def world_simps)
  have b: "mro world 10 = [] @ 10 # [11, 0]"
    by (simp add: world_simps)
  have c: "NewVariable (inherited 0) = (100, ?s0)"
    by (simp add: NewVariable_def world_simps)
  have d: "passed_over world (get_attribute world 0) (Suc 0) ?s0 1 ''x'' None {} [] = Some (1, ?s0)"
    by simp
  have e: "10 \<notin> ({} :: ref set)" by simp
  have f: "lookup_base world (get_attribute world 0) (Suc 0) ?s0 1 10 ''x'' None =
             Done ((1, Some 30), ?s0)"
    by (simp add: lookup_base_def get_member_def filter_var_def Bindings_def IsVisible_def
        NewVariable_def world_simps Let_def)
  have g: "variables ?s0 30 \<noteq> []"
    by (simp add: NewVariable_def world_simps)
  from lookup_from_mro_first_definer [OF a b c d e f g] show ?thesis
    by (simp add: looked_up_values_def NewVariable_def AddBinding_def world_simps)
qed

text \<open>Claim C2 as stated fails: \<^verbatim>\<open>A\<close> defines \<^verbatim>\<open>x\<close>, with no Binding visible at node
  \<open>1\<close>, and the walk goes on to \<^verbatim>\<open>B\<close>, whose value is the result.\<close>

theorem lookup_from_mro_invisible_counterexample:
  "members (inherited 5) 10 ''x'' = Some 30 \<and>
   Bindings world (inherited 5) 30 1 True = [] \<and>
   10 \<notin> ({} :: ref set) \<and>
   mro world 10 = [10, 11, 0] \<and>
   map data (variables (inherited 5) 31) = [22] \<and>
   looked_up_values (lookup_from_mro world (get_attribute world 0) (Suc 0) (inherited 5) 1 10 ''x''
     None {}) = [22]"
  by (simp add: looked_up_values_def lookup_from_mro_def isinstance_any_def lookup_base_def
      get_member_def filter_var_def Bindings_def IsVisible_def NewVariable_def AddBinding_def
      world_simps Let_def)

subsection \<open>The interception hook\<close>

text \<open>
  Claim C1, amended. Take an instance (a \<^verbatim>\<open>SimpleValue\<close> that is a function, or is not
  a class or a module, and whose class is a \<^verbatim>\<open>Class\<close> other than \<^verbatim>\<open>builtins.type\<close>), a self
  binding whose value is not a module, and a name that does not both start and end
  with two underscores and that the special-attribute hook does not answer. If the
  walk over the MRO of the class for \<^verbatim>\<open>__getattribute__\<close>, \<^verbatim>\<open>builtins.object\<close> skipped,
  returns a Variable with at least one Binding (a class whose definition of the hook
  has no Binding visible at the node is passed over by the walk), then the read is
  the call of that Variable with the name, followed by the two steps that end every
  read (declared fields, visibility filtering): the members of the instance and of
  its class are not consulted.
\<close>

theorem get_attribute_hook_precedence:
  assumes "get_special_attribute E s0 obj node name (Some vs) = (None, s)"
    and "isinstance E obj abstract_SimpleValue"
    and "isinstance E obj abstract_Function \<or>
         \<not> isinstance_any E obj [abstract_ParameterizedClass, class_mixin_Class, overlay_Overlay,
              abstract_Module]"
    and "full_name E (cls_of s obj) \<noteq> ''builtins.type''"
    and "isinstance E (cls_of s obj) class_mixin_Class"
    and "\<not> isinstance E (data vs) abstract_Module"
    and "computable name"
    and "lookup_from_mro E (get_attribute E fuel) fuel s node (cls_of s obj) ''__getattribute__''
           (Some vs) {object_type E} = Done (hook, s1)"
    and "variables s1 hook \<noteq> []"
    and "constant_to_var E s1 name node = (name_var, s2)"
    and "call_function E s2 node hook [name_var] = ((node1, attr), s3)"
  shows "get_attribute E (Suc fuel) s0 node obj name (Some vs) =
           get_attribute_finish E fuel s3 node1 obj name (Some vs) (Some attr)"
proof -
  have "name \<noteq> ''__get__''"
    using assms(7) by (auto simp: computable_def)
  have "get_attribute E (Suc fuel) s0 node obj name (Some vs) =
      get_instance_attribute E (get_attribute E fuel) fuel s node obj name (Some vs)"
    using assms(1-3) \<open>name \<noteq> ''__get__''\<close>
    by (auto simp: get_attribute_body_def isinstance_any_def)
  with assms(2,4-11) show ?thesis
    by (simp add: get_instance_attribute_def get_attribute'_def get_attribute_computed_def
        isinstance_any_def del: get_attribute.simps)
qed

text \<open>The instance stores \<^verbatim>\<open>size\<close>; the read returns what the hook returns.\<close>

theorem get_attribute_hook_precedence_witness:
  "members hooked 12 ''size'' = Some 34 \<and> map data (variables hooked 34) = [22] \<and>
   found_values (get_attribute world (Suc (Suc 0)) hooked 0 12 ''size''
     (Some \<lparr>data = 12, origins = [0]\<rparr>)) = [23]"
proof -
  let ?vs = "\<lparr>data = 12, origins = [0]\<rparr>"
  have a: "get_special_attribute world hooked 12 0 ''size'' (Some ?vs) = (None, hooked)"
    by (simp add: world_def)
  have b: "isinstance world 12 abstract_SimpleValue"
    by (simp add: world_simps)
  have c: "isinstance world 12 abstract_Function \<or>
      \<not> isinstance_any world 12 [abstract_ParameterizedClass, class_mixin_Class, overlay_Overlay,
           abstract_Module]"
    by (simp add: isinstance_any_def world_simps)
  have d: "full_name world (cls_of hooked 12) \<noteq> ''builtins.type''"
    by (simp add: world_simps)
  have e: "isinstance world (cls_of hooked 12) class_mixin_Class"
    by (simp add: world_simps)
  have f: "\<not> isinstance world (data ?vs) abstract_Module"
    by (simp add: world_simps)
  have g: "computable ''size''"
    by (simp add: computable_def)
  have "\<exists>hook s1. lookup_from_mro world (get_attribute world (Suc 0)) (Suc 0) hooked 0
      (cls_of hooked 12) ''__getattribute__'' (Some ?vs) {object_type world} = Done (hook, s1) \<and>
      variables s1 hook \<noteq> [] \<and> variables s1 60 = [\<lparr>data = 23, origins = [0]\<rparr>]"
    by (simp add: lookup_from_mro_def isinstance_any_def lookup_base_def get_member_def
        filter_var_def Bindings_def IsVisible_def NewVariable_def AddBinding_def
        Binding_AssignToNewVariable_def pasted_def world_simps Let_def)
  then obtain hook s1 where
    h: "lookup_from_mro world (get_attribute world (Suc 0)) (Suc 0) hooked 0
      (cls_of hooked 12) ''__getattribute__'' (Some ?vs) {object_type world} = Done (hook, s1)"
    and i: "variables s1 hook \<noteq> []"
    and v: "variables s1 60 = [\<lparr>data = 23, origins = [0]\<rparr>]"
    by blast
  have j: "constant_to_var world s1 ''size'' 0 = (61, s1)"
    by (simp add: world_def)
  have k: "call_function world s1 0 hook [61] = ((0, 60), s1)"
    by (simp add: world_def)
  have m: "mro world 12 = []"
    by (simp add: world_simps)
  from get_attribute_hook_precedence [OF a b c d e f g h i j k] v m show ?thesis
    by (simp add: found_values_def get_attribute_finish_def filter_var_def Bindings_def
        IsVisible_def Let_def world_simps)
qed

text \<open>Claim C1 as stated fails for \<^verbatim>\<open>__len__\<close>: the class defines the hook, visibly,
  and the read returns the stored Variable, in the state it was given.\<close>

theorem get_attribute_dunder_counterexample:
  "members hooked 10 ''__getattribute__'' = Some 32 \<and>
   cls_of hooked 12 = 10 \<and>
   Bindings world hooked 32 0 True \<noteq> [] \<and>
   map data (variables hooked 60) = [23] \<and>
   members hooked 12 ''__len__'' = Some 33 \<and>
   get_attribute world (Suc (Suc 0)) hooked 0 12 ''__len__'' (Some \<lparr>data = 12, origins = [0]\<rparr>) =
     Done ((0, Some 33), hooked) \<and>
   map data (variables hooked 33) = [21]"
  by (simp add: get_attribute_body_def get_instance_attribute_def get_attribute'_def
      get_attribute_computed_def isinstance_any_def AMBIGUOUS_OR_EMPTY_def computable_def
      get_member_def get_attribute_finish_def filter_var_def Bindings_def IsVisible_def
      world_simps Let_def)

subsection \<open>Reading through a type parameter\<close>

lemma branch_results_Cons:
  assumes "branch_results self s node name valself (b # bs) = Done (rs, s3)"
  obtains r s1 rs' where "self s node (data b) name valself = Done (r, s1)"
    and "branch_results self s1 node name valself bs = Done (rs', s3)"
    and "rs = r # rs'"
  using assms by (auto simp: and_then_def split: outcome.splits prod.splits)

lemma branch_results_length:
  "branch_results self s node name valself bs = Done (rs, s3) \<Longrightarrow> length rs = length bs"
proof (induction bs arbitrary: s rs)
  case Nil
  then show ?case by simp
next
  case (Cons b bs)
  from Cons.prems obtain r s1 rs' where
    "branch_results self s1 node name valself bs = Done (rs', s3)" and "rs = r # rs'"
    by (rule branch_results_Cons)
  with Cons.IH show ?case by simp
qed

lemma parameter_values_all:
  assumes "branch_results self s node name valself bs = Done (rs, s3)"
    and "\<not> (\<exists>br \<in> set (zip bs rs). fails_visibly E node br)"
  shows "parameter_values E self s node name valself bs results nodes =
           Done (Some (results @ map snd (yielded rs), nodes @ map fst (yielded rs)), s3)"
  using assms
proof (induction bs arbitrary: s rs results nodes)
  case Nil
  then show ?case by simp
next
  case (Cons b bs)
  from Cons.prems(1) obtain r s1 rs' where
    r: "self s node (data b) name valself = Done (r, s1)"
    and rest: "branch_results self s1 node name valself bs = Done (rs', s3)"
    and rs: "rs = r # rs'"
    by (rule branch_results_Cons)
  from Cons.prems(2) rs have
    here: "\<not> fails_visibly E node (b, r)"
    and later: "\<not> (\<exists>br \<in> set (zip bs rs'). fails_visibly E node br)"
    by auto
  obtain node2 ret where pair: "r = (node2, ret)" by (cases r)
  show ?case
  proof (cases ret)
    case None
    with here pair have "\<not> IsVisible E b node"
      by (simp add: fails_visibly_def)
    with None pair r rs Cons.IH [OF rest later] show ?thesis by simp
  next
    case (Some v)
    with pair r rs Cons.IH [OF rest later] show ?thesis by simp
  qed
qed

lemma parameter_values_fails:
  assumes "branch_results self s node name valself bs = Done (rs, s3)"
    and "\<exists>br \<in> set (zip bs rs). fails_visibly E node br"
  shows "\<exists>s'. parameter_values E self s node name valself bs results nodes = Done (None, s')"
  using assms
proof (induction bs arbitrary: s rs results nodes)
  case Nil
  then show ?case by simp
next
  case (Cons b bs)
  from Cons.prems(1) obtain r s1 rs' where
    r: "self s node (data b) name valself = Done (r, s1)"
    and rest: "branch_results self s1 node name valself bs = Done (rs', s3)"
    and rs: "rs = r # rs'"
    by (rule branch_results_Cons)
  obtain node2 ret where pair: "r = (node2, ret)" by (cases r)
  show ?case
  proof (cases "fails_visibly E node (b, r)")
    case True
    with pair r show ?thesis by (simp add: fails_visibly_def)
  next
    case False
    with Cons.prems(2) rs have "\<exists>br \<in> set (zip bs rs'). fails_visibly E node br"
      by auto
    from Cons.IH [OF rest this] False pair r show ?thesis
      by (cases ret) (auto simp: fails_visibly_def)
  qed
qed

lemma yielded_Nil:
  "yielded rs = [] \<Longrightarrow> r \<in> set rs \<Longrightarrow> snd r = None"
  by (induction rs rule: yielded.induct) auto

lemma none_visible:
  assumes "length rs = length bs"
    and "\<not> (\<exists>br \<in> set (zip bs rs). fails_visibly E node br)"
    and "yielded rs = []"
    and "b \<in> set bs"
  shows "\<not> IsVisible E b node"
proof -
  from assms(4) obtain i where i: "i < length bs" "bs ! i = b"
    by (auto simp: in_set_conv_nth)
  with assms(1) have "(b, rs ! i) \<in> set (zip bs rs)"
    by (auto simp: in_set_zip)
  moreover from i assms(1,3) have "snd (rs ! i) = None"
    by (auto intro: yielded_Nil)
  ultimately show ?thesis using assms(2)
    by (auto simp: fails_visibly_def)
qed

text \<open>
  Claim C6, amended. Take a read of a \<^verbatim>\<open>TypeParameterInstance\<close> that reaches its branch of
  \<^verbatim>\<open>get_attribute\<close>, and let the reads of the alternatives that the parameter holds
  (or, if it holds none, of the instantiated parameter) return \<open>rs\<close>. The three cases,
  in order: if an alternative is visible at the node and its read finds nothing, the
  result is absent, at the node given; otherwise, if some read finds the attribute,
  the nodes and the Variables of the reads that found it are joined; otherwise no
  alternative is visible at the node, and the result is a new unsolvable.
\<close>

theorem get_attribute_type_parameter_cases:
  assumes "get_special_attribute E s0 obj node name valself = (None, s)"
    and "isinstance E obj abstract_TypeParameterInstance"
    and "\<not> isinstance_any E obj [abstract_Function, abstract_ParameterizedClass, class_mixin_Class,
           overlay_Overlay, abstract_Module, abstract_SimpleValue, abstract_Union,
           special_builtins_SuperInstance, special_builtins_Super, abstract_BoundFunction]"
    and "get_instance_type_parameter E s (instance_of E obj) (name_of E obj) = (pv, s1)"
    and "(if variables s1 pv = [] then instantiate E s1 (param E obj) (root_node E) else (pv, s1)) =
           (param_var, s2)"
    and "branch_results (get_attribute E fuel) s2 node name valself (variables s2 param_var) =
           Done (rs, s3)"
  shows "((\<exists>br \<in> set (zip (variables s2 param_var) rs). fails_visibly E node br) \<longrightarrow>
            (\<exists>s'. get_attribute E (Suc fuel) s0 node obj name valself = Done ((node, None), s')))
       \<and> (\<not> (\<exists>br \<in> set (zip (variables s2 param_var) rs). fails_visibly E node br) \<and>
            yielded rs \<noteq> [] \<longrightarrow>
            get_attribute E (Suc fuel) s0 node obj name valself =
              (case join_variables E s3 (join_cfg_nodes E (map fst (yielded rs)))
                      (map snd (yielded rs)) of
                 (joined, s4) \<Rightarrow>
                   Done ((join_cfg_nodes E (map fst (yielded rs)), Some joined), s4)))
       \<and> (\<not> (\<exists>br \<in> set (zip (variables s2 param_var) rs). fails_visibly E node br) \<and>
            yielded rs = [] \<longrightarrow>
            (\<forall>b \<in> set (variables s2 param_var). \<not> IsVisible E b node) \<and>
            get_attribute E (Suc fuel) s0 node obj name valself =
              (case new_unsolvable E s3 node of (u, s4) \<Rightarrow> Done ((node, Some u), s4)))"
proof -
  let ?bs = "variables s2 param_var"
  have entry: "get_attribute E (Suc fuel) s0 node obj name valself =
      get_attribute_type_parameter E (get_attribute E fuel) s node obj name valself"
    using assms(1-3) by (simp add: get_attribute_body_def isinstance_any_def)
  have loop: "get_attribute_type_parameter E (get_attribute E fuel) s node obj name valself =
      and_then (parameter_values E (get_attribute E fuel) s2 node name valself ?bs [] [])
        (\<lambda>(found, s3).
           case found of
             None \<Rightarrow> Done ((node, None), s3)
           | Some (results, nodes) \<Rightarrow>
               if nodes \<noteq> [] then
                 (case join_variables E s3 (join_cfg_nodes E nodes) results of
                    (joined, s4) \<Rightarrow> Done ((join_cfg_nodes E nodes, Some joined), s4))
               else (case new_unsolvable E s3 node of (u, s4) \<Rightarrow> Done ((node, Some u), s4)))"
    using assms(4,5) by (simp add: get_attribute_type_parameter_def)
  have len: "length rs = length ?bs"
    by (rule branch_results_length [OF assms(6)])
  have first: "\<exists>s'. get_attribute E (Suc fuel) s0 node obj name valself = Done ((node, None), s')"
    if "\<exists>br \<in> set (zip ?bs rs). fails_visibly E node br"
  proof -
    from parameter_values_fails [OF assms(6) that, of "[]" "[]"] obtain s' where
      "parameter_values E (get_attribute E fuel) s2 node name valself ?bs [] [] = Done (None, s')"
      by blast
    then show ?thesis by (simp add: entry loop del: get_attribute.simps)
  qed
  have others: "parameter_values E (get_attribute E fuel) s2 node name valself ?bs [] [] =
      Done (Some (map snd (yielded rs), map fst (yielded rs)), s3)"
    if "\<not> (\<exists>br \<in> set (zip ?bs rs). fails_visibly E node br)"
    using parameter_values_all [OF assms(6) that, of "[]" "[]"] by simp
  show ?thesis
    using first others none_visible [OF len]
    by (auto simp: entry loop simp del: get_attribute.simps)
qed

text \<open>The parameter holds the unsolvable value, which answers, and the empty value,
  which does not: visible, then not visible, then alone.\<close>

lemma type_parameter_premises:
  "get_special_attribute world (holding bs) 19 1 ''x'' None = (None, holding bs)"
  "isinstance world 19 abstract_TypeParameterInstance"
  "\<not> isinstance_any world 19 [abstract_Function, abstract_ParameterizedClass, class_mixin_Class,
     overlay_Overlay, abstract_Module, abstract_SimpleValue, abstract_Union,
     special_builtins_SuperInstance, special_builtins_Super, abstract_BoundFunction]"
  "get_instance_type_parameter world (holding bs) (instance_of world 19) (name_of world 19) =
     (50, holding bs)"
  by (simp_all add: isinstance_any_def world_simps)

lemma read_unsolvable:
  "get_attribute world (Suc 0) s node 6 ''x'' None = Done ((node, Some 63), s)"
  by (simp add: get_attribute_body_def world_simps)

lemma read_empty:
  "get_attribute world (Suc 0) s node 5 ''x'' None = Done ((node, None), s)"
  by (simp add: get_attribute_body_def world_simps)

theorem get_attribute_type_parameter_cases_witness:
  "(\<exists>s'. get_attribute world (Suc (Suc 0))
      (holding [\<lparr>data = 6, origins = [0]\<rparr>, \<lparr>data = 5, origins = [0]\<rparr>]) 1 19 ''x'' None =
      Done ((1, None), s'))
   \<and> (\<exists>s'. get_attribute world (Suc (Suc 0))
      (holding [\<lparr>data = 6, origins = [0]\<rparr>, \<lparr>data = 5, origins = [3]\<rparr>]) 1 19 ''x'' None =
      Done ((2, Some 100), s') \<and> variables s' 100 = [\<lparr>data = 6, origins = [2]\<rparr>])
   \<and> (\<exists>s'. get_attribute world (Suc (Suc 0))
      (holding [\<lparr>data = 5, origins = [3]\<rparr>]) 1 19 ''x'' None =
      Done ((1, Some 100), s') \<and> variables s' 100 = [\<lparr>data = 6, origins = [1]\<rparr>])"
proof -
  have held: "(if variables (holding bs) 50 = []
        then instantiate world (holding bs) (param world 19) (root_node world)
        else (50, holding bs)) = (50, holding bs)" if "bs \<noteq> []" for bs
    using that by (simp add: world_simps)
  have two: "branch_results (get_attribute world (Suc 0)) (holding [\<lparr>data = 6, origins = [0]\<rparr>, b]) 1
      ''x'' None (variables (holding [\<lparr>data = 6, origins = [0]\<rparr>, b]) 50) =
      Done ([(1, Some 63), (1, None)], holding [\<lparr>data = 6, origins = [0]\<rparr>, b])"
    if "data b = 5" for b
    using that by (simp add: holding_def with_variable_def read_unsolvable read_empty
        del: get_attribute.simps)
  have one: "branch_results (get_attribute world (Suc 0)) (holding [\<lparr>data = 5, origins = [3]\<rparr>]) 1
      ''x'' None (variables (holding [\<lparr>data = 5, origins = [3]\<rparr>]) 50) =
      Done ([(1, None)], holding [\<lparr>data = 5, origins = [3]\<rparr>])"
    by (simp add: holding_def with_variable_def read_empty del: get_attribute.simps)
  have first: "\<exists>s'. get_attribute world (Suc (Suc 0))
      (holding [\<lparr>data = 6, origins = [0]\<rparr>, \<lparr>data = 5, origins = [0]\<rparr>]) 1 19 ''x'' None =
      Done ((1, None), s')"
    using get_attribute_type_parameter_cases
      [OF type_parameter_premises held [of "[\<lparr>data = 6, origins = [0]\<rparr>, \<lparr>data = 5, origins = [0]\<rparr>]"]
         two [of "\<lparr>data = 5, origins = [0]\<rparr>"]]
    by (simp add: fails_visibly_def IsVisible_def world_simps del: get_attribute.simps)
  have second: "\<exists>s'. get_attribute world (Suc (Suc 0))
      (holding [\<lparr>data = 6, origins = [0]\<rparr>, \<lparr>data = 5, origins = [3]\<rparr>]) 1 19 ''x'' None =
      Done ((2, Some 100), s') \<and> variables s' 100 = [\<lparr>data = 6, origins = [2]\<rparr>]"
    using get_attribute_type_parameter_cases
      [OF type_parameter_premises held [of "[\<lparr>data = 6, origins = [0]\<rparr>, \<lparr>data = 5, origins = [3]\<rparr>]"]
         two [of "\<lparr>data = 5, origins = [3]\<rparr>"]]
    by (simp add: fails_visibly_def IsVisible_def world_simps NewVariable_def PasteVariable_def
        pasted_def del: get_attribute.simps)
  have third: "\<exists>s'. get_attribute world (Suc (Suc 0))
      (holding [\<lparr>data = 5, origins = [3]\<rparr>]) 1 19 ''x'' None =
      Done ((1, Some 100), s') \<and> variables s' 100 = [\<lparr>data = 6, origins = [1]\<rparr>]"
    using get_attribute_type_parameter_cases
      [OF type_parameter_premises held [of "[\<lparr>data = 5, origins = [3]\<rparr>]"] one]
    by (simp add: fails_visibly_def IsVisible_def world_simps NewVariable_def to_variable_def
        AddBinding_def del: get_attribute.simps)
  from first second third show ?thesis by blast
qed

text \<open>Claim C6 as stated fails in its last case: the only alternative of \<^verbatim>\<open>T\<close> is not
  visible at node \<open>1\<close>, so no branch is reachable, and the read returns the value that
  the alternative stores, not the unsolvable value.\<close>

theorem get_attribute_type_parameter_counterexample:
  "variables unreachable_alternative 50 = [\<lparr>data = 21, origins = [3]\<rparr>] \<and>
   \<not> IsVisible world \<lparr>data = 21, origins = [3]\<rparr> 1 \<and>
   (case new_unsolvable world unreachable_alternative 1 of (u, s) \<Rightarrow> map data (variables s u)) = [6] \<and>
   found_values (get_attribute world (Suc (Suc (Suc 0))) unreachable_alternative 1 19 ''x'' None) = [22]"
  by (simp add: found_values_def world_simps IsVisible_def
      get_attribute_body_def get_attribute_type_parameter_def get_instance_attribute_def
      get_attribute'_def get_attribute_computed_def get_class_attribute_def class_attribute_meta_def
      isinstance_any_def AMBIGUOUS_OR_EMPTY_def computable_def lookup_from_mro_def NewVariable_def
      lookup_base_def get_member_def Bindings_def filter_var_def
      lookup_from_mro_and_handle_descriptors_def get_attribute_finish_def
      to_variable_def AddBinding_def PasteVariable_def pasted_def Let_def)

subsection \<open>The errors of the engine\<close>

lemma asserts_onlyD:
  "asserts_only self \<Longrightarrow> self s node obj name valself = Raised e \<Longrightarrow> e = AssertionError"
  by (simp add: asserts_only_def)

lemma and_then_Raised:
  "and_then m f = Raised e \<Longrightarrow> m = Raised e \<or> (\<exists>x. m = Done x \<and> f x = Raised e)"
  by (auto simp: and_then_def split: outcome.splits)

lemma filter_var_loop_raises: "filter_var_loop E fuel s node ret bs \<noteq> Raised e"
  by (induction E fuel s node ret bs rule: filter_var_loop.induct)
     (auto simp: Let_def split: prod.splits)

lemma filter_var_raises: "filter_var E fuel s node var \<noteq> Raised e"
  by (auto simp: filter_var_def Let_def filter_var_loop_raises split: prod.splits
      dest!: and_then_Raised)

lemma maybe_load_raises:
  "maybe_load_as_instance_attribute E s node obj name = Raised e \<Longrightarrow> e = AssertionError"
  by (auto simp: maybe_load_as_instance_attribute_def split: if_splits)

lemma get_member_raises:
  "get_member E s node obj name valself = Raised e \<Longrightarrow> e = AssertionError"
  by (auto simp: get_member_def Let_def split: if_splits option.splits
      dest!: and_then_Raised maybe_load_raises)

lemma get_attribute_flat_raises:
  assumes "asserts_only self"
  shows "get_attribute_flat E self fuel s node cls name valself = Raised e \<Longrightarrow> e = AssertionError"
proof (induction fuel arbitrary: cls)
  case 0
  then show ?case by simp
next
  case (Suc fuel)
  from Suc.prems show ?case
    by (auto simp: filter_var_raises split: if_splits option.splits prod.splits
        dest!: and_then_Raised Suc.IH asserts_onlyD [OF assms] get_member_raises)
qed

lemma lookup_mro_raises:
  assumes "asserts_only self"
  shows "lookup_mro E self fuel s node cls name valself skip ret bases = Raised e \<Longrightarrow> e = AssertionError"
proof (induction bases arbitrary: s node)
  case Nil
  then show ?case by simp
next
  case (Cons base bases)
  from Cons.prems show ?case
    by (auto simp: lookup_base_def split: if_splits option.splits prod.splits
        dest!: and_then_Raised Cons.IH get_attribute_flat_raises [OF assms])
qed

lemma lookup_from_mro_raises:
  assumes "asserts_only self"
  shows "lookup_from_mro E self fuel s node cls name valself skip = Raised e \<Longrightarrow> e = AssertionError"
  by (auto simp: lookup_from_mro_def split: if_splits prod.splits
      dest!: and_then_Raised lookup_mro_raises [OF assms])

lemma get_attribute_computed_raises:
  assumes "asserts_only self"
  shows "get_attribute_computed E self fuel s node cls name valself f = Raised e \<Longrightarrow>
         e = AssertionError"
  by (auto simp: get_attribute_computed_def split: if_splits option.splits prod.splits
      dest!: and_then_Raised lookup_from_mro_raises [OF assms])

lemma handle_descriptors_raises:
  assumes "asserts_only self"
  shows "handle_descriptors E self s node cls valself result bs nodes = Raised e \<Longrightarrow> e = AssertionError"
proof (induction bs arbitrary: s nodes cls valself)
  case Nil
  then show ?case by simp
next
  case (Cons b bs)
  from Cons.prems show ?case
    by (auto split: if_splits option.splits prod.splits
        dest!: and_then_Raised Cons.IH asserts_onlyD [OF assms])
qed

lemma lookup_and_handle_raises:
  assumes "asserts_only self"
  shows "lookup_from_mro_and_handle_descriptors E self fuel s node cls name valself skip = Raised e
         \<Longrightarrow> e = AssertionError"
  by (auto simp: lookup_from_mro_and_handle_descriptors_def split: if_splits prod.splits
      dest!: and_then_Raised
        lookup_from_mro_raises [OF assms] handle_descriptors_raises [OF assms])

lemma super_instance_raises:
  assumes "asserts_only self"
  shows "get_attribute_from_super_instance E self fuel s node obj name valself = Raised e \<Longrightarrow>
         e = AssertionError"
  by (auto simp: get_attribute_from_super_instance_def Let_def split: option.splits prod.splits
      dest!: lookup_and_handle_raises [OF assms])

lemma get_attribute_finish_raises:
  "get_attribute_finish E fuel s node obj name valself attr \<noteq> Raised e"
  by (auto simp: get_attribute_finish_def filter_var_raises split: prod.splits option.splits
      dest!: and_then_Raised)

lemma get_attribute'_raises:
  assumes "asserts_only self"
  shows "get_attribute' E self fuel s node obj cls name valself = Raised e \<Longrightarrow> e = AssertionError"
  unfolding get_attribute'_def
  by (auto simp: get_attribute_finish_raises split: if_splits option.splits prod.splits
      dest!: and_then_Raised
        asserts_onlyD [OF assms] get_attribute_computed_raises [OF assms]
        lookup_and_handle_raises [OF assms] get_member_raises)

lemma get_instance_attribute_raises:
  assumes "asserts_only self"
  shows "get_instance_attribute E self fuel s node obj name valself = Raised e \<Longrightarrow>
         e = AssertionError"
  by (auto simp: get_instance_attribute_def split: if_splits dest!: get_attribute'_raises [OF assms])

lemma get_class_attribute_raises:
  assumes "asserts_only self"
  shows "get_class_attribute E self fuel s node obj name valself = Raised e \<Longrightarrow> e = AssertionError"
  by (auto simp: get_class_attribute_def split: if_splits dest!: get_attribute'_raises [OF assms])

lemma get_module_attribute_raises:
  assumes "asserts_only self"
  shows "get_module_attribute E self fuel s node obj name valself = Raised e \<Longrightarrow> e = AssertionError"
  by (auto simp: get_module_attribute_def split: if_splits prod.splits option.splits
      dest!: and_then_Raised get_instance_attribute_raises [OF assms])

lemma union_options_raises:
  assumes "asserts_only self"
  shows "union_options self s node name valself ret opts nodes = Raised e \<Longrightarrow> e = AssertionError"
proof (induction opts arbitrary: s nodes)
  case Nil
  then show ?case by simp
next
  case (Cons opt opts)
  from Cons.prems show ?case
    by (auto split: option.splits prod.splits dest!: and_then_Raised
        Cons.IH asserts_onlyD [OF assms])
qed

lemma parameter_values_raises:
  assumes "asserts_only self"
  shows "parameter_values E self s node name valself bs results nodes = Raised e \<Longrightarrow> e = AssertionError"
proof (induction bs arbitrary: s results nodes)
  case Nil
  then show ?case by simp
next
  case (Cons b bs)
  from Cons.prems show ?case
    by (auto split: option.splits prod.splits if_splits dest!: and_then_Raised
        Cons.IH asserts_onlyD [OF assms])
qed

lemma get_attribute_body_raises:
  assumes "asserts_only self"
  shows "get_attribute_body E self fuel s node obj name valself = Raised e \<Longrightarrow> e = AssertionError"
  unfolding get_attribute_body_def get_attribute_union_def get_attribute_type_parameter_def
  by (auto split: if_splits option.splits prod.splits
      dest!: and_then_Raised
        asserts_onlyD [OF assms] get_instance_attribute_raises [OF assms]
        get_class_attribute_raises [OF assms] get_module_attribute_raises [OF assms]
        super_instance_raises [OF assms] union_options_raises [OF assms]
        parameter_values_raises [OF assms])

lemma get_attribute_asserts_only: "asserts_only (get_attribute E fuel)"
proof (induction fuel)
  case 0
  then show ?case by (simp add: asserts_only_def)
next
  case (Suc fuel)
  show ?case
    unfolding asserts_only_def get_attribute.simps
    by (blast dest: get_attribute_body_raises [OF Suc])
qed

text \<open>
  Claim C5, amended. If the target passes the writability check and is an instance of
  none of the classes that \<^verbatim>\<open>set_attribute\<close> handles, the call raises
  \<^verbatim>\<open>NotImplementedError\<close> with the name of the target's class, whatever the fuel. This
  is the only error of the write path: whenever a call of \<^verbatim>\<open>set_attribute\<close> raises,
  what it raises is the \<^verbatim>\<open>NotImplementedError\<close> of a value of no handled class (the
  assertions of the write path never fail). It is not the only fatal error of the
  engine: a call of \<^verbatim>\<open>get_attribute\<close> raises as well, when one of the assertions of
  the read path fails, and then it raises \<^verbatim>\<open>AssertionError\<close> and nothing else.
\<close>

theorem set_attribute_unhandled_variant:
  "(fst (check_writable E s obj name) \<and> \<not> isinstance_any E obj handled_by_set_attribute \<longrightarrow>
      set_attribute E (Suc fuel) s node obj name value =
        Raised (NotImplementedError (class_name E obj)))
   \<and> (set_attribute E fuel' s' node' obj' name' value' = Raised e \<longrightarrow> unhandled_variant E e)
   \<and> asserts_only (get_attribute E fuel'')"
  by (auto simp: set_attribute_body_def dispatch_unhandled get_attribute_asserts_only
      dest: check_writable_True set_attribute_raises)

text \<open>A write to a \<^verbatim>\<open>SuperInstance\<close>, whose class \<^verbatim>\<open>super\<close> has no slot restriction.\<close>

theorem set_attribute_unhandled_variant_witness:
  "fst (check_writable world heap 16 ''x'') \<and>
   \<not> isinstance_any world 16 handled_by_set_attribute \<and>
   set_attribute world (Suc 0) heap 1 16 ''x'' 70 = Raised (NotImplementedError ''SuperInstance'') \<and>
   unhandled_variant world (NotImplementedError ''SuperInstance'') \<and>
   get_attribute world (Suc 0) heap 1 16 ''x'' None \<noteq> Raised (NotImplementedError ''SuperInstance'')"
proof -
  have w: "fst (check_writable world heap 16 ''x'')"
    by (simp add: check_writable_def world_simps)
  have u: "\<not> isinstance_any world 16 handled_by_set_attribute"
    by (simp add: isinstance_any_def handled_by_set_attribute_def world_simps)
  have n: "class_name world 16 = ''SuperInstance''"
    by (simp add: world_def)
  note all = set_attribute_unhandled_variant
    [of world heap 16 "''x''" 0 1 70 "Suc 0" heap 1 16 "''x''" 70 "NotImplementedError ''SuperInstance''"
      "Suc 0"]
  from all w u n have a:
    "set_attribute world (Suc 0) heap 1 16 ''x'' 70 = Raised (NotImplementedError ''SuperInstance'')"
    by (simp del: set_attribute.simps get_attribute.simps)
  from all a have b: "unhandled_variant world (NotImplementedError ''SuperInstance'')"
    by (simp del: set_attribute.simps get_attribute.simps)
  from all have "asserts_only (get_attribute world (Suc 0))"
    by (simp del: set_attribute.simps get_attribute.simps)
  from asserts_onlyD [OF this] have c:
    "get_attribute world (Suc 0) heap 1 16 ''x'' None \<noteq> Raised (NotImplementedError ''SuperInstance'')"
    by blast
  from w u a b c show ?thesis
    by (simp del: set_attribute.simps get_attribute.simps)
qed

text \<open>Claim C5 as stated fails: the read path has a fatal error of its own. The
  instance \<open>25\<close> has a \<^verbatim>\<open>Union\<close> for its class; reading an attribute from it fails the
  assertion of \<^verbatim>\<open>_get_attribute_computed\<close>, and this error is not the
  \<^verbatim>\<open>NotImplementedError\<close> of an unhandled variant.\<close>

theorem get_attribute_assertion_counterexample:
  "isinstance world 25 abstract_SimpleValue \<and>
   cls_of heap 25 = 26 \<and>
   \<not> isinstance_any world 26 (class_mixin_Class # AMBIGUOUS_OR_EMPTY) \<and>
   get_attribute world (Suc 0) heap 0 25 ''x'' None = Raised AssertionError \<and>
   \<not> unhandled_variant world AssertionError"
  by (simp add: get_attribute_body_def get_instance_attribute_def get_attribute'_def
      get_attribute_computed_def isinstance_any_def AMBIGUOUS_OR_EMPTY_def unhandled_variant_def
      and_then_def world_simps)

end
